theory Spec2Isabelle
  imports Main
begin

section \<open>The daemon lifecycle controller of lib/solaar/daemon.py\<close>

text \<open>
  The module is effectful Python: it calls the operating system, the logging package and
  the collaborators \<open>cli\<close>, \<open>listener\<close> and \<open>dbus\<close>. The embedding makes every effect
  explicit. A computation takes the process state and returns an outcome together with
  the new state; the state carries the module global \<open>_running\<close>, the threshold of the
  root logger, and the list of side-effecting calls made so far, in order. What the outside
  world answers to each call (does the fork fail, does a hook raise, which signals arrive
  during a sleep) is read from a record \<open>env\<close>, so that the functions below are
  deterministic in the state and the environment.

  Scope of the exceptions: every exception of the model is an instance of Python's class
  \<open>Exception\<close>, which is what the handlers of the module catch; \<open>SystemExit\<close> is the
  separate outcome \<open>SysExit\<close>, which no handler of the module catches.
\<close>

subsection \<open>Outcomes and exit statuses\<close>

datatype exn = OSError string | Error string

datatype exit_arg = Code int | MissingPyudev

datatype 'a outcome = Return 'a | Raise exn | SysExit exit_arg | Forever

text \<open>
  The exit status of the interpreter: \<open>main()\<close> is called at the bottom of the module and
  its value is dropped, so a return gives status 0; \<open>sys.exit(n)\<close> gives \<open>n\<close>;
  \<open>sys.exit\<close> with a string prints it and gives status 1; an exception that nothing
  catches prints a traceback and gives status 1. A run that never ends has no status.
\<close>

fun exit_status :: "'a outcome \<Rightarrow> int option" where
  "exit_status (Return v) = Some 0"
| "exit_status (Raise e) = Some 1"
| "exit_status (SysExit (Code n)) = Some n"
| "exit_status (SysExit MissingPyudev) = Some 1"
| "exit_status Forever = None"

subsection \<open>Logging levels and signal numbers\<close>

definition logging_ERROR :: int where "logging_ERROR = 40"
definition logging_WARNING :: int where "logging_WARNING = 30"
definition logging_INFO :: int where "logging_INFO = 20"
definition logging_DEBUG :: int where "logging_DEBUG = 10"
definition logging_NOTSET :: int where "logging_NOTSET = 0"

definition SIGINT :: int where "SIGINT = 2"
definition SIGTERM :: int where "SIGTERM = 15"

text \<open>The two signals for which \<open>_daemon_run_loop\<close> installs \<open>_handlesig\<close>.\<close>

datatype delivered = Interrupt | Terminate

fun signum :: "delivered \<Rightarrow> int" where
  "signum Interrupt = SIGINT"
| "signum Terminate = SIGTERM"

subsection \<open>The trace of calls\<close>

text \<open>
  A log record is the format of the call together with its arguments, as the logging
  package keeps them. \<open>Log lvl r\<close> is the call of the logger method of level \<open>lvl\<close>;
  whether a handler prints the record is decided downstream by the thresholds.
\<close>

datatype logrec =
    DaemonVersion
  | ExitKeyboardInterrupt
  | ExitSIGTERM
  | ExitSignal int
  | DaemonLoopError exn
  | PidWritten nat string
  | PidWriteFailed string exn
  | Fork1Failed exn
  | Fork2Failed exn
  | UdevFileNotFound
  | SeeInstallation
  | DaemonError exn

datatype event =
    TempCreate
  | TempClose
  | CliPrintHelp
  | SetRootLevel int
  | AddFileHandler int
  | AddStreamHandler int
  | Log int logrec
  | CliRun "string list" "string option"
  | Fork
  | Chdir string
  | Setsid
  | Umask nat
  | FlushStd
  | Dup2Devnull nat
  | OpenPidFile string
  | WritePid string nat
  | AtexitRegister string
  | SetupScanner
  | WatchSuspendResume bool
  | DeferSaves
  | InstallHandler int
  | StartupHook
  | ShutdownHook
  | Sleep
  | DumpTraceback

record state =
  running :: bool
  root_level :: int
  events :: "event list"

text \<open>
  The state after the module has been imported: \<open>_running = True\<close> (line 46), the root
  logger at Python's default threshold WARNING, and the temporary log file of line 45
  created.
\<close>

definition module_import :: state where
  "module_import = \<lparr>running = True, root_level = logging_WARNING, events = [TempCreate]\<rparr>"

text \<open>The events a computation added to the trace.\<close>

definition added :: "state \<Rightarrow> state \<Rightarrow> event list" where
  "added st st' = drop (length (events st)) (events st')"

subsection \<open>Control flow of Python as combinators\<close>

type_synonym 'a comp = "state \<Rightarrow> 'a outcome \<times> state"

definition ret :: "'a \<Rightarrow> 'a comp" where
  "ret x st = (Return x, st)"

definition bind :: "'a comp \<Rightarrow> ('a \<Rightarrow> 'b comp) \<Rightarrow> 'b comp" where
  "bind m f st =
     (case m st of
        (Return x, st') \<Rightarrow> f x st'
      | (Raise e, st') \<Rightarrow> (Raise e, st')
      | (SysExit a, st') \<Rightarrow> (SysExit a, st')
      | (Forever, st') \<Rightarrow> (Forever, st'))"

definition emit :: "event \<Rightarrow> unit comp" where
  "emit ev st = (Return (), st\<lparr>events := events st @ [ev]\<rparr>)"

definition logger_call :: "int \<Rightarrow> logrec \<Rightarrow> unit comp" where
  "logger_call lvl r = emit (Log lvl r)"

definition sys_exit :: "exit_arg \<Rightarrow> 'a comp" where
  "sys_exit a st = (SysExit a, st)"

text \<open>\<open>try: m except Exception as e: h e\<close>. A \<open>SystemExit\<close> passes through.\<close>

definition try_except :: "'a comp \<Rightarrow> (exn \<Rightarrow> 'a comp) \<Rightarrow> 'a comp" where
  "try_except m h st =
     (case m st of
        (Raise e, st') \<Rightarrow> h e st'
      | r \<Rightarrow> r)"

text \<open>\<open>try: m except OSError as e: h e\<close>.\<close>

definition try_except_OSError :: "'a comp \<Rightarrow> (exn \<Rightarrow> 'a comp) \<Rightarrow> 'a comp" where
  "try_except_OSError m h st =
     (case m st of
        (Raise (OSError s), st') \<Rightarrow> h (OSError s) st'
      | r \<Rightarrow> r)"

text \<open>
  \<open>try: m finally: fin\<close>. The final block runs however \<open>m\<close> ends, unless \<open>m\<close> never
  ends; when the final block itself does not end normally, its outcome replaces the
  outcome of \<open>m\<close>.
\<close>

definition try_finally :: "'a comp \<Rightarrow> unit comp \<Rightarrow> 'a comp" where
  "try_finally m fin st =
     (case m st of
        (Forever, st') \<Rightarrow> (Forever, st')
      | (r, st') \<Rightarrow>
          (case fin st' of
             (Return u, st'') \<Rightarrow> (r, st'')
           | (Raise e, st'') \<Rightarrow> (Raise e, st'')
           | (SysExit a, st'') \<Rightarrow> (SysExit a, st'')
           | (Forever, st'') \<Rightarrow> (Forever, st'')))"

text \<open>
  \<open>logger.isEnabledFor(lvl)\<close>: the module logger has no level of its own, so its
  effective level is the one of the root logger.
\<close>

definition isEnabledFor :: "int \<Rightarrow> state \<Rightarrow> bool" where
  "isEnabledFor lvl st = (root_level st \<le> lvl)"

subsection \<open>The parsed command line and the environment\<close>

text \<open>The namespace that \<open>create_parser().parse_args()\<close> returns (lines 49 to 92).\<close>

record args =
  debug :: nat
  hidraw_path :: "string option"
  restart_on_wake_up :: bool
  pid_file :: "string option"
  no_fork :: bool
  help_actions :: bool
  action :: "string list"

text \<open>
  The parser either returns a namespace or ends the process itself (usage error,
  \<open>--version\<close>, \<open>--help\<close>) through \<open>sys.exit\<close>.
\<close>

datatype parse_outcome = Parsed args | ParserExit int

text \<open>\<open>os.fork()\<close> returns a process id (0 in the child) or raises \<open>OSError\<close>.\<close>

datatype fork_outcome = ForkReturns nat | ForkFails string

text \<open>
  What happens during a call that blocks after the handlers are installed (a hook, a
  sleep): the handled signals delivered while it runs, in order, and the exception it
  raises, if any.
\<close>

type_synonym phase = "delivered list \<times> exn option"

type_synonym pyvalue = "int option"

record env =
  platform_system :: string
  import_pyudev :: bool
  argparse_result :: parse_outcome
  cli_run :: "exn + pyvalue"
  os_fork1 :: fork_outcome
  os_fork2 :: fork_outcome
  os_getpid :: nat
  open_write :: "exn option"
  file_write :: "exn option"
  os_path_isfile :: "string \<Rightarrow> bool"
  listener_setup_scanner :: "exn option"
  dbus_watch_suspend_resume :: "exn option"
  listener_start_all :: phase
  listener_stop_all :: phase
  time_sleeps :: "phase list"
  temp_close_detached :: "exn option"

text \<open>
  The last field is what \<open>temp.close()\<close> of line 294 raises in the process that
  \<open>_daemonize\<close> leaves running. The temporary file of line 45 is created with
  \<open>delete=True\<close>, so the exit of the first parent has already closed and deleted it
  there. The \<open>close\<close> of the file wrapper then deletes the name again: up to
  CPython 3.11 without a guard, which raises \<open>FileNotFoundError\<close> (an \<open>OSError\<close>);
  later versions ignore the missing file. In a process that has not forked the file is
  still there and the close succeeds.
\<close>

text \<open>A call to a collaborator that may raise: the call is recorded, then it answers.\<close>

definition external :: "event \<Rightarrow> exn option \<Rightarrow> unit comp" where
  "external ev r =
     bind (emit ev) (\<lambda>_ st. case r of None \<Rightarrow> (Return (), st) | Some e \<Rightarrow> (Raise e, st))"

subsection \<open>\<open>_parse_arguments\<close> (lines 95 to 120)\<close>

definition log_level :: "nat \<Rightarrow> int" where
  "log_level d = logging_ERROR - 10 * int d"

definition root_threshold :: "nat \<Rightarrow> int" where
  "root_threshold d = min (log_level d) logging_WARNING"

definition file_handler_level :: "nat \<Rightarrow> int" where
  "file_handler_level d = max (min (log_level d) logging_WARNING) logging_INFO"

definition set_root_level :: "int \<Rightarrow> unit comp" where
  "set_root_level l st = emit (SetRootLevel l) (st\<lparr>root_level := l\<rparr>)"

definition parse_arguments :: "env \<Rightarrow> args option comp" where
  "parse_arguments w =
     (case argparse_result w of
        ParserExit n \<Rightarrow> sys_exit (Code n)
      | Parsed a \<Rightarrow>
          if help_actions a then bind (emit CliPrintHelp) (\<lambda>_. ret None)
          else
            bind (set_root_level (root_threshold (debug a))) (\<lambda>_.
            bind (emit (AddFileHandler (file_handler_level (debug a)))) (\<lambda>_.
            bind (if debug a > 0 \<or> no_fork a
                  then emit (AddStreamHandler (log_level (debug a))) else ret ()) (\<lambda>_.
            bind (if action a = []
                  then logger_call logging_INFO DaemonVersion else ret ()) (\<lambda>_.
            ret (Some a))))))"

subsection \<open>\<open>_handlesig\<close> (lines 160 to 171)\<close>

definition handlesig :: "int \<Rightarrow> unit comp" where
  "handlesig signl =
     bind (if signl = SIGINT then
             bind (\<lambda>st. if isEnabledFor logging_INFO st
                         then emit DumpTraceback st else ret () st) (\<lambda>_.
             logger_call logging_INFO ExitKeyboardInterrupt)
           else if signl = SIGTERM then logger_call logging_INFO ExitSIGTERM
           else logger_call logging_INFO (ExitSignal signl)) (\<lambda>_ st.
     (Return (), st\<lparr>running := False\<rparr>))"

subsection \<open>\<open>_daemon_run_loop\<close> (lines 174 to 191)\<close>

text \<open>The handler runs once for each signal delivered during a blocking call.\<close>

fun deliver :: "delivered list \<Rightarrow> unit comp" where
  "deliver [] = ret ()"
| "deliver (g # gs) = bind (handlesig (signum g)) (\<lambda>_. deliver gs)"

definition blocking :: "event \<Rightarrow> phase \<Rightarrow> unit comp" where
  "blocking ev p =
     bind (emit ev) (\<lambda>_.
     bind (deliver (fst p)) (\<lambda>_ st.
     case snd p of None \<Rightarrow> (Return (), st) | Some e \<Rightarrow> (Raise e, st)))"

text \<open>
  \<open>while _running: time.sleep(1)\<close>. The schedule lists what happens during each sleep;
  after the schedule every sleep ends quietly, so a loop that reaches the end of the
  schedule with the flag still set never returns.
\<close>

fun wait_loop :: "phase list \<Rightarrow> unit comp" where
  "wait_loop [] st = (if running st then (Forever, st) else (Return (), st))"
| "wait_loop (p # ps) st =
     (if running st then bind (blocking Sleep p) (\<lambda>_. wait_loop ps) st
      else (Return (), st))"

definition daemon_run_loop :: "phase \<Rightarrow> phase \<Rightarrow> phase list \<Rightarrow> unit comp" where
  "daemon_run_loop startup_hook shutdown_hook sleeps =
     bind (emit (InstallHandler SIGTERM)) (\<lambda>_.
     bind (emit (InstallHandler SIGINT)) (\<lambda>_.
     bind (blocking StartupHook startup_hook) (\<lambda>_.
     try_finally
       (try_except (wait_loop sleeps)
          (\<lambda>e. logger_call logging_ERROR (DaemonLoopError e)))
       (blocking ShutdownHook shutdown_hook))))"

subsection \<open>\<open>_write_pid_file\<close> (lines 194 to 203)\<close>

definition write_pid_file :: "env \<Rightarrow> string option \<Rightarrow> unit comp" where
  "write_pid_file w pid_file_arg =
     (case pid_file_arg of
        None \<Rightarrow> ret ()
      | Some p \<Rightarrow>
          if p = [] then ret ()
          else
            try_except
              (bind (external (OpenPidFile p) (open_write w)) (\<lambda>_.
               bind (external (WritePid p (os_getpid w)) (file_write w)) (\<lambda>_.
               bind (emit (AtexitRegister p)) (\<lambda>_.
               logger_call logging_INFO (PidWritten (os_getpid w) p)))))
              (\<lambda>e. logger_call logging_ERROR (PidWriteFailed p e)))"

subsection \<open>\<open>_daemonize\<close> (lines 206 to 239)\<close>

text \<open>
  The model follows one process: the answer of each \<open>os.fork()\<close> says on which side of the
  fork it is. The calls that the source makes outside any handler (\<open>chdir\<close>, \<open>setsid\<close>,
  \<open>umask\<close>, the flushes, and the redirection of each standard descriptor to the null
  device, \<open>open\<close> and \<open>dup2\<close> together) are recorded and taken to succeed.
\<close>

definition os_fork :: "fork_outcome \<Rightarrow> nat comp" where
  "os_fork r =
     bind (emit Fork) (\<lambda>_ st.
       case r of ForkReturns pid \<Rightarrow> (Return pid, st)
               | ForkFails msg \<Rightarrow> (Raise (OSError msg), st))"

definition daemonize :: "env \<Rightarrow> unit comp" where
  "daemonize w =
     bind (try_except_OSError
             (bind (os_fork (os_fork1 w))
                (\<lambda>pid. if pid > 0 then sys_exit (Code 0) else ret ()))
             (\<lambda>e. bind (logger_call logging_ERROR (Fork1Failed e))
                (\<lambda>_. sys_exit (Code 1)))) (\<lambda>_.
     bind (emit (Chdir ''/'')) (\<lambda>_.
     bind (emit Setsid) (\<lambda>_.
     bind (emit (Umask 0)) (\<lambda>_.
     bind (try_except_OSError
             (bind (os_fork (os_fork2 w))
                (\<lambda>pid. if pid > 0 then sys_exit (Code 0) else ret ()))
             (\<lambda>e. bind (logger_call logging_ERROR (Fork2Failed e))
                (\<lambda>_. sys_exit (Code 1)))) (\<lambda>_.
     bind (emit FlushStd) (\<lambda>_.
     bind (emit (Dup2Devnull 0)) (\<lambda>_.
     bind (emit (Dup2Devnull 1)) (\<lambda>_.
     emit (Dup2Devnull 2)))))))))"

subsection \<open>\<open>main\<close> (lines 242 to 294)\<close>

text \<open>Lines 243 to 247: the dependency check.\<close>

definition check_pyudev :: "env \<Rightarrow> unit comp" where
  "check_pyudev w =
     (if platform_system w \<noteq> ''Darwin'' \<and> platform_system w \<noteq> ''Windows''
      then (if import_pyudev w then ret () else sys_exit MissingPyudev)
      else ret ())"

text \<open>Lines 254 to 258: the one-shot action.\<close>

definition main_oneshot :: "env \<Rightarrow> args \<Rightarrow> pyvalue comp" where
  "main_oneshot w a =
     bind (bind (emit (CliRun (action a) (hidraw_path a)))
             (\<lambda>_ st. case cli_run w of Inl e \<Rightarrow> (Raise e, st) | Inr v \<Rightarrow> (Return v, st)))
       (\<lambda>result. bind (emit TempClose) (\<lambda>_. ret result))"

text \<open>Lines 267 to 276: the advisory about the udev rules file.\<close>

definition udev_file :: string where
  "udev_file = ''42-logitech-unify-permissions.rules''"

definition udev_advisory :: "env \<Rightarrow> unit comp" where
  "udev_advisory w st =
     (if platform_system w = ''Linux''
         \<and> isEnabledFor logging_WARNING st
         \<and> \<not> os_path_isfile w (''/etc/udev/rules.d/'' @ udev_file)
         \<and> \<not> os_path_isfile w (''/usr/lib/udev/rules.d/'' @ udev_file)
         \<and> \<not> os_path_isfile w (''/usr/local/lib/udev/rules.d/'' @ udev_file)
      then bind (logger_call logging_WARNING UdevFileNotFound)
             (\<lambda>_. logger_call logging_WARNING SeeInstallation) st
      else ret () st)"

text \<open>Lines 279 to 289: the body of the \<open>try\<close> statement.\<close>

definition daemon_sequence :: "env \<Rightarrow> args \<Rightarrow> unit comp" where
  "daemon_sequence w a =
     bind (external SetupScanner (listener_setup_scanner w)) (\<lambda>_.
     bind (external (WatchSuspendResume (restart_on_wake_up a))
             (dbus_watch_suspend_resume w)) (\<lambda>_.
     bind (emit DeferSaves) (\<lambda>_.
     daemon_run_loop (listener_start_all w) (listener_stop_all w) (time_sleeps w))))"

text \<open>Line 294: \<open>temp.close()\<close> at the end of the daemon path, outside the \<open>try\<close>.\<close>

definition close_temp :: "env \<Rightarrow> args \<Rightarrow> unit comp" where
  "close_temp w a =
     (if no_fork a then emit TempClose else external TempClose (temp_close_detached w))"

text \<open>Lines 260 to 294: the daemon path.\<close>

definition main_daemon :: "env \<Rightarrow> args \<Rightarrow> pyvalue comp" where
  "main_daemon w a =
     bind (if \<not> no_fork a then daemonize w else ret ()) (\<lambda>_.
     bind (write_pid_file w (pid_file a)) (\<lambda>_.
     bind (udev_advisory w) (\<lambda>_.
     bind (try_except (daemon_sequence w a)
             (\<lambda>e. bind (logger_call logging_ERROR (DaemonError e))
                (\<lambda>_. sys_exit (Code 1)))) (\<lambda>_.
     bind (close_temp w a) (\<lambda>_.
     ret None)))))"

definition main :: "env \<Rightarrow> pyvalue comp" where
  "main w =
     bind (check_pyudev w) (\<lambda>_.
     bind (parse_arguments w) (\<lambda>parsed.
       case parsed of
         None \<Rightarrow> bind (emit TempClose) (\<lambda>_. ret None)
       | Some a \<Rightarrow>
           if action a \<noteq> [] then main_oneshot w a else main_daemon w a))"

subsection \<open>Auxiliary definitions for the statements\<close>

text \<open>The diagnostic events: what the signal handler emits.\<close>

fun is_diag :: "event \<Rightarrow> bool" where
  "is_diag DumpTraceback = True"
| "is_diag (Log l r) = True"
| "is_diag ev = False"

text \<open>
  The events of the detacher, of the PID file and of the installation of signal
  handlers.
\<close>

fun daemon_only :: "event \<Rightarrow> bool" where
  "daemon_only Fork = True"
| "daemon_only (Chdir d) = True"
| "daemon_only Setsid = True"
| "daemon_only (Umask m) = True"
| "daemon_only FlushStd = True"
| "daemon_only (Dup2Devnull fd) = True"
| "daemon_only (OpenPidFile p) = True"
| "daemon_only (WritePid p n) = True"
| "daemon_only (AtexitRegister p) = True"
| "daemon_only (InstallHandler s) = True"
| "daemon_only ev = False"

fun is_CliRun :: "event \<Rightarrow> bool" where
  "is_CliRun (CliRun a h) = True"
| "is_CliRun ev = False"

text \<open>The log record that \<open>_handlesig\<close> emits for a signal number.\<close>

definition exit_reason :: "int \<Rightarrow> logrec" where
  "exit_reason s =
     (if s = SIGINT then ExitKeyboardInterrupt
      else if s = SIGTERM then ExitSIGTERM else ExitSignal s)"

text \<open>The state once \<open>_daemon_run_loop\<close> has installed its two handlers.\<close>

definition installed :: "state \<Rightarrow> state" where
  "installed st = st\<lparr>events := events st @ [InstallHandler SIGTERM, InstallHandler SIGINT]\<rparr>"

text \<open>
  The state when the \<open>finally\<close> block of \<open>_daemon_run_loop\<close> starts: the wait loop has
  ended, and an exception of the wait phase has been logged.
\<close>

definition after_wait :: "phase list \<Rightarrow> state \<Rightarrow> state" where
  "after_wait sl st =
     (case fst (wait_loop sl st) of
        Raise e \<Rightarrow> (snd (wait_loop sl st))\<lparr>events :=
            events (snd (wait_loop sl st)) @ [Log logging_ERROR (DaemonLoopError e)]\<rparr>
      | _ \<Rightarrow> snd (wait_loop sl st))"

text \<open>The conditions of the daemon path of \<open>main\<close>, read from the environment.\<close>

definition dependency_ok :: "env \<Rightarrow> bool" where
  "dependency_ok w =
     (platform_system w = ''Darwin'' \<or> platform_system w = ''Windows'' \<or> import_pyudev w)"

fun fork_failed :: "fork_outcome \<Rightarrow> bool" where
  "fork_failed (ForkFails msg) = True"
| "fork_failed (ForkReturns pid) = False"

text \<open>A fork primitive that \<open>_daemonize\<close> reaches fails.\<close>

definition detach_fails :: "env \<Rightarrow> args \<Rightarrow> bool" where
  "detach_fails w a =
     (if no_fork a then False
      else fork_failed (os_fork1 w) \<or> (os_fork1 w = ForkReturns 0 \<and> fork_failed (os_fork2 w)))"

text \<open>The process that goes on after the detachment step is the one that is followed.\<close>

definition detached :: "env \<Rightarrow> args \<Rightarrow> bool" where
  "detached w a =
     (if no_fork a then True
      else os_fork1 w = ForkReturns 0 \<and> os_fork2 w = ForkReturns 0)"

text \<open>
  A step of the \<open>try\<close> body of \<open>main\<close> raises: the scanner setup, the suspend/resume
  watch, or one of the two hooks.
\<close>

definition sequence_raises :: "env \<Rightarrow> bool" where
  "sequence_raises w =
     (listener_setup_scanner w \<noteq> None \<or> dbus_watch_suspend_resume w \<noteq> None
      \<or> snd (listener_start_all w) \<noteq> None \<or> snd (listener_stop_all w) \<noteq> None)"

text \<open>The run reaches the call of \<open>_daemon_run_loop\<close> with the parsed arguments \<open>a\<close>.\<close>

definition reaches_run_loop :: "env \<Rightarrow> args \<Rightarrow> bool" where
  "reaches_run_loop w a =
     (dependency_ok w \<and> argparse_result w = Parsed a \<and> \<not> help_actions a \<and> action a = []
      \<and> detached w a
      \<and> listener_setup_scanner w = None \<and> dbus_watch_suspend_resume w = None)"

text \<open>
  The state in which \<open>main\<close> enters its \<open>try\<close> statement (line 278), and the state in
  which it calls \<open>_daemon_run_loop\<close> (line 289) when the two calls before it return.
\<close>

definition before_sequence :: "env \<Rightarrow> args \<Rightarrow> state \<Rightarrow> state" where
  "before_sequence w a st =
     snd (udev_advisory w
       (snd (write_pid_file w (pid_file a)
         (snd ((if \<not> no_fork a then daemonize w else ret ())
           (snd (parse_arguments w st)))))))"

definition entering :: "env \<Rightarrow> args \<Rightarrow> state \<Rightarrow> state" where
  "entering w a st =
     (before_sequence w a st)\<lparr>events := events (before_sequence w a st)
        @ [SetupScanner, WatchSuspendResume (restart_on_wake_up a), DeferSaves]\<rparr>"

text \<open>
  How \<open>main\<close> ends (lines 290 to 294) from the way its \<open>try\<close> body ended: the handler
  logs an exception and exits with status 1; after a normal end the temporary file is
  closed and, when the close returns, \<open>main\<close> returns \<open>None\<close>.
\<close>

fun main_finish :: "env \<Rightarrow> args \<Rightarrow> unit outcome \<times> state \<Rightarrow> pyvalue outcome \<times> state" where
  "main_finish w a (Return u, st) = bind (close_temp w a) (\<lambda>_. ret None) st"
| "main_finish w a (Raise e, st) =
     (SysExit (Code 1), st\<lparr>events := events st @ [Log logging_ERROR (DaemonError e)]\<rparr>)"
| "main_finish w a (SysExit c, st) = (SysExit c, st)"
| "main_finish w a (Forever, st) = (Forever, st)"

text \<open>The close of line 294 raises in the process that is followed.\<close>

definition close_raises :: "env \<Rightarrow> args \<Rightarrow> bool" where
  "close_raises w a = (if no_fork a then False else temp_close_detached w \<noteq> None)"

subsection \<open>Concrete runs\<close>

text \<open>
  \<open>solaar-daemon --no-fork\<close> on a Linux machine with pyudev and the udev rules installed;
  the hooks succeed and SIGTERM arrives during the first sleep.
\<close>

definition args0 :: args where
  "args0 = \<lparr>debug = 0, hidraw_path = None, restart_on_wake_up = False, pid_file = None,
            no_fork = True, help_actions = False, action = []\<rparr>"

definition env0 :: env where
  "env0 = \<lparr>platform_system = ''Linux'', import_pyudev = True,
           argparse_result = Parsed args0, cli_run = Inr (Some 7),
           os_fork1 = ForkReturns 0, os_fork2 = ForkReturns 0, os_getpid = 4242,
           open_write = None, file_write = None, os_path_isfile = (\<lambda>f. True),
           listener_setup_scanner = None, dbus_watch_suspend_resume = None,
           listener_start_all = ([], None), listener_stop_all = ([], None),
           time_sleeps = [([Terminate], None)], temp_close_detached = None\<rparr>"


section \<open>Properties\<close>

subsection \<open>The combinators\<close>

lemmas level_defs =
  logging_ERROR_def logging_WARNING_def logging_INFO_def logging_DEBUG_def logging_NOTSET_def

lemma bind_emit: "bind (emit ev) f st = f () (st\<lparr>events := events st @ [ev]\<rparr>)"
  by (simp add: bind_def emit_def)

lemma bind_ret: "bind (ret x) f st = f x st"
  by (simp add: bind_def ret_def)

lemma bind_logger_call:
  "bind (logger_call l r) f st = f () (st\<lparr>events := events st @ [Log l r]\<rparr>)"
  by (simp add: logger_call_def bind_emit)

lemma bind_Return: "fst (m st) = Return x \<Longrightarrow> bind m f st = f x (snd (m st))"
  by (cases "m st") (simp add: bind_def)

lemma bind_Raise: "fst (m st) = Raise e \<Longrightarrow> bind m f st = (Raise e, snd (m st))"
  by (cases "m st") (simp add: bind_def)

lemma bind_SysExit: "fst (m st) = SysExit a \<Longrightarrow> bind m f st = (SysExit a, snd (m st))"
  by (cases "m st") (simp add: bind_def)

lemma bind_Forever: "fst (m st) = Forever \<Longrightarrow> bind m f st = (Forever, snd (m st))"
  by (cases "m st") (simp add: bind_def)

lemma try_except_Raise: "fst (m st) = Raise e \<Longrightarrow> try_except m h st = h e (snd (m st))"
  by (cases "m st") (simp add: try_except_def)

lemma try_except_pass: "(\<And>e. fst (m st) \<noteq> Raise e) \<Longrightarrow> try_except m h st = m st"
  by (cases "m st"; cases "fst (m st)") (simp_all add: try_except_def)

lemma external_eq:
  "external ev r st =
     (case r of None \<Rightarrow> Return () | Some e \<Rightarrow> Raise e, st\<lparr>events := events st @ [ev]\<rparr>)"
  by (simp add: external_def bind_emit split: option.split)

subsection \<open>The signal handler\<close>

lemma handlesig_eq:
  "handlesig s st =
     (Return (), st\<lparr>running := False,
        events := events st
          @ (if s = SIGINT \<and> isEnabledFor logging_INFO st then [DumpTraceback] else [])
          @ [Log logging_INFO (exit_reason s)]\<rparr>)"
  by (simp add: handlesig_def bind_def emit_def ret_def logger_call_def exit_reason_def)

lemma deliver_fst: "fst (deliver gs st) = Return ()"
  by (induction gs arbitrary: st) (simp_all add: ret_def bind_def handlesig_eq)

lemma deliver_running: "running (snd (deliver gs st)) = (running st \<and> gs = [])"
proof (induction gs arbitrary: st)
  case Nil
  show ?case by (simp add: ret_def)
next
  case (Cons g gs)
  show ?case by (simp add: bind_def handlesig_eq Cons.IH)
qed

lemma deliver_root_level: "root_level (snd (deliver gs st)) = root_level st"
proof (induction gs arbitrary: st)
  case Nil
  show ?case by (simp add: ret_def)
next
  case (Cons g gs)
  show ?case by (simp add: bind_def handlesig_eq Cons.IH)
qed

lemma deliver_count:
  "\<not> is_diag x \<Longrightarrow> count_list (events (snd (deliver gs st))) x = count_list (events st) x"
proof (induction gs arbitrary: st)
  case Nil
  show ?case by (simp add: ret_def)
next
  case (Cons g gs)
  from Cons.prems have "x \<noteq> DumpTraceback" and "x \<noteq> Log logging_INFO (exit_reason (signum g))"
    by auto
  with Cons.prems show ?case
    by (simp add: bind_def handlesig_eq Cons.IH)
qed

subsection \<open>Blocking calls and the wait loop\<close>

lemma blocking_eq:
  "blocking ev p st =
     (case snd p of None \<Rightarrow> Return () | Some e \<Rightarrow> Raise e,
      snd (deliver (fst p) (st\<lparr>events := events st @ [ev]\<rparr>)))"
proof -
  obtain st' where d: "deliver (fst p) (st\<lparr>events := events st @ [ev]\<rparr>) = (Return (), st')"
    using deliver_fst [of "fst p" "st\<lparr>events := events st @ [ev]\<rparr>"]
    by (cases "deliver (fst p) (st\<lparr>events := events st @ [ev]\<rparr>)") simp
  show ?thesis
    by (simp add: blocking_def bind_emit) (simp add: bind_def d split: option.split)
qed

lemma blocking_fst:
  "fst (blocking ev p st) = (case snd p of None \<Rightarrow> Return () | Some e \<Rightarrow> Raise e)"
  by (simp add: blocking_eq)

lemma blocking_running: "running (snd (blocking ev p st)) = (running st \<and> fst p = [])"
  by (simp add: blocking_eq deliver_running)

lemma blocking_root_level: "root_level (snd (blocking ev p st)) = root_level st"
  by (simp add: blocking_eq deliver_root_level)

lemma blocking_count:
  "\<not> is_diag x \<Longrightarrow>
   count_list (events (snd (blocking ev p st))) x
     = count_list (events st) x + (if x = ev then 1 else 0)"
  by (simp add: blocking_eq deliver_count)

lemma blocking_quiet:
  "blocking ev ([], None) st = (Return (), st\<lparr>events := events st @ [ev]\<rparr>)"
  by (simp add: blocking_eq ret_def)

lemma wait_loop_stopped: "\<not> running st \<Longrightarrow> wait_loop sl st = (Return (), st)"
  by (cases sl) simp_all

lemma wait_loop_step:
  "running st \<Longrightarrow>
   wait_loop (p # ps) st =
     (case snd p of
        None \<Rightarrow> wait_loop ps (snd (blocking Sleep p st))
      | Some e \<Rightarrow> (Raise e, snd (blocking Sleep p st)))"
  by (simp add: bind_def blocking_eq split: option.split)

lemma wait_loop_not_exit: "fst (wait_loop sl st) \<noteq> SysExit a"
proof (induction sl arbitrary: st)
  case Nil
  show ?case by simp
next
  case (Cons p ps)
  show ?case
  proof (cases "running st")
    case False
    then show ?thesis by (simp add: wait_loop_stopped)
  next
    case True
    with Cons.IH show ?thesis
      by (simp add: wait_loop_step del: wait_loop.simps split: option.split)
  qed
qed

lemma wait_loop_count:
  "\<not> is_diag x \<Longrightarrow> x \<noteq> Sleep \<Longrightarrow>
   count_list (events (snd (wait_loop sl st))) x = count_list (events st) x"
proof (induction sl arbitrary: st)
  case Nil
  show ?case by simp
next
  case (Cons p ps)
  show ?case
  proof (cases "running st")
    case False
    then show ?thesis by (simp add: wait_loop_stopped)
  next
    case True
    with Cons.IH [OF Cons.prems] Cons.prems show ?thesis
      by (simp add: wait_loop_step blocking_count del: wait_loop.simps split: option.split)
  qed
qed

lemma wait_loop_root_level: "root_level (snd (wait_loop sl st)) = root_level st"
proof (induction sl arbitrary: st)
  case Nil
  show ?case by simp
next
  case (Cons p ps)
  show ?case
  proof (cases "running st")
    case False
    then show ?thesis by (simp add: wait_loop_stopped)
  next
    case True
    with Cons.IH show ?thesis
      by (simp add: wait_loop_step blocking_root_level del: wait_loop.simps split: option.split)
  qed
qed

lemma count_list_replicate_same: "count_list (replicate n x) x = n"
  by (induction n) simp_all

lemma wait_loop_signalled:
  "running st \<Longrightarrow> sigs \<noteq> [] \<Longrightarrow>
   wait_loop (replicate k ([], None) @ (sigs, x) # rest) st =
     (case x of None \<Rightarrow> Return () | Some e \<Rightarrow> Raise e,
      snd (deliver sigs (st\<lparr>events := events st @ replicate (Suc k) Sleep\<rparr>)))"
proof (induction k arbitrary: st)
  case 0
  then show ?case
    by (simp add: wait_loop_step blocking_eq deliver_running wait_loop_stopped
        del: wait_loop.simps split: option.split)
next
  case (Suc k)
  have r: "running (st\<lparr>events := events st @ [Sleep]\<rparr>)"
    using Suc.prems by simp
  show ?case
    using Suc.prems Suc.IH [OF r Suc.prems(2)]
    by (simp add: wait_loop_step blocking_quiet replicate_append_same del: wait_loop.simps)
qed


subsection \<open>Verbosity (claim C7)\<close>

text \<open>
  Claim C7, as stated: each repetition of \<open>-d\<close> lowers the log threshold by exactly one
  level, with a floor at the most verbose level. It fails on the code: with five
  repetitions \<open>_parse_arguments\<close> sets the root logger (and the stream handler) to
  \<open>-10\<close>, below DEBUG and below NOTSET; and the first repetition does not lower the
  threshold of the root logger at all.
\<close>

theorem debug_threshold_counterexample:
  "parse_arguments (env0\<lparr>argparse_result := Parsed (args0\<lparr>debug := 5\<rparr>)\<rparr>) module_import =
     (Return (Some (args0\<lparr>debug := 5\<rparr>)),
      \<lparr>running = True, root_level = - 10,
       events = [TempCreate, SetRootLevel (- 10), AddFileHandler 20, AddStreamHandler (- 10),
                 Log 20 DaemonVersion]\<rparr>)
   \<and> root_threshold 5 < logging_NOTSET \<and> logging_NOTSET < logging_DEBUG
   \<and> root_threshold 1 = root_threshold 0"
  by (simp add: parse_arguments_def env0_def args0_def module_import_def bind_def ret_def
      emit_def set_root_level_def logger_call_def root_threshold_def file_handler_level_def
      log_level_def level_defs)

text \<open>
  Claim C7, amended: each repetition lowers the computed level \<open>ERROR - 10 * count\<close> by
  exactly one level (10), with no floor. The threshold of the root logger is the minimum
  of that level and WARNING: it never rises with the count, and from the first repetition
  on it is the computed level itself and drops by 10 for each further repetition. Only
  the handler of the temporary file has a clamped threshold, between INFO and WARNING.
  These are the values \<open>_parse_arguments\<close> installs.
\<close>

theorem debug_levels:
  "log_level (Suc d) = log_level d - 10
   \<and> root_threshold (Suc d) \<le> root_threshold d
   \<and> root_threshold (Suc d) = log_level (Suc d)
   \<and> logging_INFO \<le> file_handler_level d \<and> file_handler_level d \<le> logging_WARNING
   \<and> (argparse_result w = Parsed a \<and> \<not> help_actions a \<longrightarrow>
        root_level (snd (parse_arguments w st)) = root_threshold (debug a)
        \<and> added st (snd (parse_arguments w st)) =
            [SetRootLevel (root_threshold (debug a)),
             AddFileHandler (file_handler_level (debug a))]
            @ (if debug a > 0 \<or> no_fork a then [AddStreamHandler (log_level (debug a))] else [])
            @ (if action a = [] then [Log logging_INFO DaemonVersion] else []))"
  by (simp add: log_level_def root_threshold_def file_handler_level_def level_defs
      parse_arguments_def bind_def ret_def emit_def set_root_level_def logger_call_def added_def)

theorem debug_levels_witness:
  "argparse_result (env0\<lparr>argparse_result := Parsed (args0\<lparr>debug := 3\<rparr>)\<rparr>)
     = Parsed (args0\<lparr>debug := 3\<rparr>)
   \<and> \<not> help_actions (args0\<lparr>debug := 3\<rparr>)
   \<and> root_level (snd (parse_arguments
        (env0\<lparr>argparse_result := Parsed (args0\<lparr>debug := 3\<rparr>)\<rparr>) module_import)) = 10
   \<and> log_level 3 = 10 \<and> file_handler_level 3 = 20"
  using debug_levels [of 2 "env0\<lparr>argparse_result := Parsed (args0\<lparr>debug := 3\<rparr>)\<rparr>"
      "args0\<lparr>debug := 3\<rparr>" module_import]
  by (simp add: env0_def args0_def root_threshold_def log_level_def file_handler_level_def
      level_defs)

subsection \<open>The signal handler (claim C8)\<close>





subsection \<open>The run loop\<close>

lemma drl_unfold:
  "daemon_run_loop su sd sl st =
     bind (blocking StartupHook su) (\<lambda>_.
       try_finally (try_except (wait_loop sl) (\<lambda>e. logger_call logging_ERROR (DaemonLoopError e)))
         (blocking ShutdownHook sd)) (installed st)"
  by (simp add: daemon_run_loop_def bind_emit installed_def)

lemma drl_startup_raises:
  "snd su = Some e \<Longrightarrow>
   daemon_run_loop su sd sl st = (Raise e, snd (blocking StartupHook su (installed st)))"
  by (simp add: drl_unfold bind_Raise blocking_fst)

lemma guarded_wait:
  "try_except (wait_loop sl) (\<lambda>e. logger_call logging_ERROR (DaemonLoopError e)) st =
     (case fst (wait_loop sl st) of
        Raise e \<Rightarrow> (Return (), after_wait sl st)
      | Return u \<Rightarrow> (Return (), after_wait sl st)
      | Forever \<Rightarrow> (Forever, after_wait sl st)
      | SysExit a \<Rightarrow> (SysExit a, after_wait sl st))"
  by (cases "wait_loop sl st"; cases "fst (wait_loop sl st)")
     (simp_all add: try_except_def logger_call_def emit_def after_wait_def)

lemma drl_started:
  assumes "snd su = None"
  shows "daemon_run_loop su sd sl st =
     (if fst (wait_loop sl (snd (blocking StartupHook su (installed st)))) = Forever
      then (Forever, snd (wait_loop sl (snd (blocking StartupHook su (installed st)))))
      else blocking ShutdownHook sd (after_wait sl (snd (blocking StartupHook su (installed st)))))"
proof -
  let ?st2 = "snd (blocking StartupHook su (installed st))"
  have s: "fst (blocking StartupHook su (installed st)) = Return ()"
    using assms by (simp add: blocking_fst)
  have b: "\<And>f. bind (blocking StartupHook su) f (installed st) = f () ?st2"
    using s by (rule bind_Return)
  have ne: "\<And>a. fst (wait_loop sl ?st2) \<noteq> SysExit a"
    by (rule wait_loop_not_exit)
  show ?thesis
  proof (cases "fst (wait_loop sl ?st2)")
    case (Return u)
    then show ?thesis
      by (simp add: drl_unfold b try_finally_def guarded_wait blocking_eq split: option.split)
  next
    case (Raise e)
    then show ?thesis
      by (simp add: drl_unfold b try_finally_def guarded_wait blocking_eq split: option.split)
  next
    case (SysExit a)
    with ne [of a] show ?thesis by blast
  next
    case Forever
    then show ?thesis
      by (simp add: drl_unfold b try_finally_def guarded_wait after_wait_def)
  qed
qed

lemma installed_count:
  "count_list (events (installed st)) x
     = count_list (events st) x
       + (if x = InstallHandler SIGTERM then 1 else 0) + (if x = InstallHandler SIGINT then 1 else 0)"
  by (simp add: installed_def)

lemma after_wait_count:
  "\<not> is_diag x \<Longrightarrow> x \<noteq> Sleep \<Longrightarrow>
   count_list (events (after_wait sl st)) x = count_list (events st) x"
  by (cases "fst (wait_loop sl st)") (auto simp add: after_wait_def wait_loop_count)

lemma drl_fst:
  "fst (daemon_run_loop su sd sl st) =
     (case snd su of
        Some e \<Rightarrow> Raise e
      | None \<Rightarrow>
          if fst (wait_loop sl (snd (blocking StartupHook su (installed st)))) = Forever
          then Forever
          else (case snd sd of None \<Rightarrow> Return () | Some e \<Rightarrow> Raise e))"
  by (cases "snd su") (simp_all add: drl_startup_raises drl_started blocking_fst)

lemma drl_count_shutdown:
  "count_list (events (snd (daemon_run_loop su sd sl st))) ShutdownHook
     = count_list (events st) ShutdownHook
       + (if snd su = None \<and> fst (daemon_run_loop su sd sl st) \<noteq> Forever then 1 else 0)"
proof (cases "snd su")
  case (Some e)
  then show ?thesis
    by (simp add: drl_startup_raises blocking_count installed_count)
next
  case None
  show ?thesis
  proof (cases "fst (wait_loop sl (snd (blocking StartupHook su (installed st)))) = Forever")
    case True
    with None show ?thesis
      by (simp add: drl_started wait_loop_count blocking_count installed_count)
  next
    case False
    with None show ?thesis
      by (simp add: drl_started after_wait_count blocking_count installed_count blocking_fst
          split: option.split)
  qed
qed

lemma drl_count_startup:
  "count_list (events (snd (daemon_run_loop su sd sl st))) StartupHook
     = count_list (events st) StartupHook + 1"
proof (cases "snd su")
  case (Some e)
  then show ?thesis
    by (simp add: drl_startup_raises blocking_count installed_count)
next
  case None
  show ?thesis
  proof (cases "fst (wait_loop sl (snd (blocking StartupHook su (installed st)))) = Forever")
    case True
    with None show ?thesis
      by (simp add: drl_started wait_loop_count blocking_count installed_count)
  next
    case False
    with None show ?thesis
      by (simp add: drl_started after_wait_count blocking_count installed_count)
  qed
qed

lemma drl_root_level: "root_level (snd (daemon_run_loop su sd sl st)) = root_level st"
proof (cases "snd su")
  case (Some e)
  then show ?thesis
    by (simp add: drl_startup_raises blocking_root_level installed_def)
next
  case None
  have aw: "\<And>s. root_level (after_wait sl s) = root_level s"
    by (simp add: after_wait_def wait_loop_root_level split: outcome.split)
  from None show ?thesis
    by (simp add: drl_started blocking_root_level wait_loop_root_level aw installed_def)
qed


lemma drl_count_sleep:
  "snd su = None \<Longrightarrow>
   count_list (events (snd (daemon_run_loop su sd sl st))) Sleep
     = count_list (events (snd (wait_loop sl (snd (blocking StartupHook su (installed st)))))) Sleep"
  by (cases "fst (wait_loop sl (snd (blocking StartupHook su (installed st))))")
     (simp_all add: drl_started blocking_count after_wait_def)

subsection \<open>The steps of main\<close>

lemma check_pyudev_eq:
  "check_pyudev w st = (if dependency_ok w then (Return (), st) else (SysExit MissingPyudev, st))"
  by (auto simp add: check_pyudev_def dependency_ok_def ret_def sys_exit_def)

lemma parse_arguments_fst:
  "argparse_result w = Parsed a \<Longrightarrow>
   fst (parse_arguments w st) = Return (if help_actions a then None else Some a)"
  by (simp add: parse_arguments_def bind_def ret_def emit_def set_root_level_def logger_call_def)

lemma parse_arguments_root_level:
  "argparse_result w = Parsed a \<Longrightarrow> \<not> help_actions a \<Longrightarrow>
   root_level (snd (parse_arguments w st)) = root_threshold (debug a)"
  by (simp add: parse_arguments_def bind_def ret_def emit_def set_root_level_def logger_call_def)

lemma parse_arguments_count:
  "x = StartupHook \<or> x = ShutdownHook \<Longrightarrow>
   count_list (events (snd (parse_arguments w st))) x = count_list (events st) x"
  by (auto simp add: parse_arguments_def bind_def ret_def emit_def set_root_level_def
      logger_call_def sys_exit_def split: parse_outcome.split)

lemma os_fork_eq:
  "os_fork r st =
     (case r of ForkReturns pid \<Rightarrow> Return pid | ForkFails msg \<Rightarrow> Raise (OSError msg),
      st\<lparr>events := events st @ [Fork]\<rparr>)"
  by (simp add: os_fork_def bind_emit split: fork_outcome.split)

lemma fork_step:
  "try_except_OSError
     (bind (os_fork r) (\<lambda>pid. if pid > 0 then sys_exit (Code 0) else ret ()))
     (\<lambda>e. bind (logger_call logging_ERROR (rec e)) (\<lambda>_. sys_exit (Code 1))) st =
   (case r of
      ForkFails msg \<Rightarrow>
        (SysExit (Code 1),
         st\<lparr>events := events st @ [Fork, Log logging_ERROR (rec (OSError msg))]\<rparr>)
    | ForkReturns pid \<Rightarrow>
        (if pid > 0 then SysExit (Code 0) else Return (), st\<lparr>events := events st @ [Fork]\<rparr>))"
  by (simp add: try_except_OSError_def bind_def os_fork_eq sys_exit_def ret_def logger_call_def
      emit_def split: fork_outcome.split)

lemma daemonize_fst:
  "fst (daemonize w st) =
     (case os_fork1 w of
        ForkFails msg \<Rightarrow> SysExit (Code 1)
      | ForkReturns pid \<Rightarrow>
          if pid > 0 then SysExit (Code 0)
          else (case os_fork2 w of
                  ForkFails msg \<Rightarrow> SysExit (Code 1)
                | ForkReturns pid2 \<Rightarrow> if pid2 > 0 then SysExit (Code 0) else Return ()))"
  unfolding daemonize_def
  by (simp add: bind_def fork_step emit_def split: fork_outcome.split)

lemma daemonize_child:
  "os_fork1 w = ForkReturns 0 \<Longrightarrow> os_fork2 w = ForkReturns 0 \<Longrightarrow>
   daemonize w st =
     (Return (), st\<lparr>events := events st @ [Fork, Chdir ''/'', Setsid, Umask 0, Fork, FlushStd,
        Dup2Devnull 0, Dup2Devnull 1, Dup2Devnull 2]\<rparr>)"
  unfolding daemonize_def
  by (simp add: bind_def fork_step emit_def)

lemma write_pid_file_fst: "fst (write_pid_file w pf st) = Return ()"
  by (simp add: write_pid_file_def ret_def try_except_def bind_def external_eq emit_def
      logger_call_def split: option.split)

lemma write_pid_file_count:
  "x = StartupHook \<or> x = ShutdownHook \<Longrightarrow>
   count_list (events (snd (write_pid_file w pf st))) x = count_list (events st) x"
  by (auto simp add: write_pid_file_def ret_def try_except_def bind_def external_eq emit_def
      logger_call_def split: option.split)

lemma write_pid_file_root_level: "root_level (snd (write_pid_file w pf st)) = root_level st"
  by (simp add: write_pid_file_def ret_def try_except_def bind_def external_eq emit_def
      logger_call_def split: option.split)

lemma udev_advisory_fst: "fst (udev_advisory w st) = Return ()"
  by (simp add: udev_advisory_def ret_def bind_def logger_call_def emit_def)

lemma udev_advisory_count:
  "x = StartupHook \<or> x = ShutdownHook \<Longrightarrow>
   count_list (events (snd (udev_advisory w st))) x = count_list (events st) x"
  by (auto simp add: udev_advisory_def ret_def bind_def logger_call_def emit_def)

lemma udev_advisory_root_level: "root_level (snd (udev_advisory w st)) = root_level st"
  by (simp add: udev_advisory_def ret_def bind_def logger_call_def emit_def)

lemma daemon_sequence_eq:
  "daemon_sequence w a st =
     (case listener_setup_scanner w of
        Some e \<Rightarrow> (Raise e, st\<lparr>events := events st @ [SetupScanner]\<rparr>)
      | None \<Rightarrow>
          (case dbus_watch_suspend_resume w of
             Some e \<Rightarrow> (Raise e, st\<lparr>events := events st
                 @ [SetupScanner, WatchSuspendResume (restart_on_wake_up a)]\<rparr>)
           | None \<Rightarrow>
               daemon_run_loop (listener_start_all w) (listener_stop_all w) (time_sleeps w)
                 (st\<lparr>events := events st
                   @ [SetupScanner, WatchSuspendResume (restart_on_wake_up a), DeferSaves]\<rparr>)))"
  by (simp add: daemon_sequence_def bind_def external_eq emit_def split: option.split)

lemma main_oneshot_eq:
  "main_oneshot w a st =
     (case cli_run w of
        Inl e \<Rightarrow> (Raise e, st\<lparr>events := events st @ [CliRun (action a) (hidraw_path a)]\<rparr>)
      | Inr v \<Rightarrow>
          (Return v, st\<lparr>events := events st @ [CliRun (action a) (hidraw_path a), TempClose]\<rparr>))"
  by (simp add: main_oneshot_def bind_def emit_def ret_def split: sum.split)

lemma parse_arguments_oneshot:
  "argparse_result w = Parsed a \<Longrightarrow> \<not> help_actions a \<Longrightarrow> action a \<noteq> [] \<Longrightarrow>
   snd (parse_arguments w st) =
     st\<lparr>root_level := root_threshold (debug a),
        events := events st
          @ [SetRootLevel (root_threshold (debug a)),
             AddFileHandler (file_handler_level (debug a))]
          @ (if debug a > 0 \<or> no_fork a then [AddStreamHandler (log_level (debug a))] else [])\<rparr>"
  by (simp add: parse_arguments_def bind_def ret_def emit_def set_root_level_def)

lemma guarded_sequence:
  "bind (try_except m (\<lambda>e. bind (logger_call logging_ERROR (DaemonError e))
             (\<lambda>_. sys_exit (Code 1))))
     (\<lambda>_. bind (close_temp w a) (\<lambda>_. ret None)) st = main_finish w a (m st)"
  by (cases "m st"; cases "fst (m st)")
     (simp_all add: bind_def try_except_def logger_call_def emit_def sys_exit_def ret_def)

lemma main_daemon_eq:
  "main_daemon w a st =
     (case fst ((if \<not> no_fork a then daemonize w else ret ()) st) of
        Return u \<Rightarrow>
          main_finish w a (daemon_sequence w a
            (snd (udev_advisory w (snd (write_pid_file w (pid_file a)
              (snd ((if \<not> no_fork a then daemonize w else ret ()) st)))))))
      | Raise e \<Rightarrow> (Raise e, snd ((if \<not> no_fork a then daemonize w else ret ()) st))
      | SysExit c \<Rightarrow> (SysExit c, snd ((if \<not> no_fork a then daemonize w else ret ()) st))
      | Forever \<Rightarrow> (Forever, snd ((if \<not> no_fork a then daemonize w else ret ()) st)))"
proof -
  let ?pre = "if \<not> no_fork a then daemonize w else ret ()"
  let ?rest = "\<lambda>_::unit. bind (write_pid_file w (pid_file a)) (\<lambda>_.
     bind (udev_advisory w) (\<lambda>_.
     bind (try_except (daemon_sequence w a)
             (\<lambda>e. bind (logger_call logging_ERROR (DaemonError e))
                (\<lambda>_. sys_exit (Code 1)))) (\<lambda>_.
     bind (close_temp w a) (\<lambda>_.
     ret None))))"
  have md: "main_daemon w a st = bind ?pre ?rest st"
    by (simp add: main_daemon_def)
  have rest: "\<And>s. ?rest () s =
      main_finish w a (daemon_sequence w a
        (snd (udev_advisory w (snd (write_pid_file w (pid_file a) s)))))"
  proof -
    fix s
    have 1: "fst (write_pid_file w (pid_file a) s) = Return ()"
      by (rule write_pid_file_fst)
    have 2: "fst (udev_advisory w (snd (write_pid_file w (pid_file a) s))) = Return ()"
      by (rule udev_advisory_fst)
    show "?rest () s =
      main_finish w a (daemon_sequence w a
        (snd (udev_advisory w (snd (write_pid_file w (pid_file a) s)))))"
      by (simp add: bind_Return [where m = "write_pid_file w (pid_file a)", OF 1]
          bind_Return [where m = "udev_advisory w", OF 2] guarded_sequence)
  qed
  show ?thesis
  proof (cases "fst (?pre st)")
    case (Return u)
    then show ?thesis
      unfolding md by (simp only: bind_Return [where m = ?pre, OF Return] rest outcome.case)
  next
    case (Raise e)
    then show ?thesis
      unfolding md by (simp only: bind_Raise [where m = ?pre, OF Raise] outcome.case)
  next
    case (SysExit c)
    then show ?thesis
      unfolding md by (simp only: bind_SysExit [where m = ?pre, OF SysExit] outcome.case)
  next
    case Forever
    then show ?thesis
      unfolding md by (simp only: bind_Forever [where m = ?pre, OF Forever] outcome.case)
  qed
qed

lemma main_eq:
  "argparse_result w = Parsed a \<Longrightarrow>
   main w st =
     (if \<not> dependency_ok w then (SysExit MissingPyudev, st)
      else if help_actions a
        then (Return None, st\<lparr>events := events st @ [CliPrintHelp, TempClose]\<rparr>)
      else if action a \<noteq> [] then main_oneshot w a (snd (parse_arguments w st))
      else main_daemon w a (snd (parse_arguments w st)))"
proof -
  assume p: "argparse_result w = Parsed a"
  have f: "fst (parse_arguments w st) = Return (if help_actions a then None else Some a)"
    using p by (rule parse_arguments_fst)
  have h: "help_actions a \<Longrightarrow>
    snd (parse_arguments w st) = st\<lparr>events := events st @ [CliPrintHelp]\<rparr>"
    using p by (simp add: parse_arguments_def bind_def emit_def ret_def)
  let ?k = "\<lambda>parsed. case parsed of
         None \<Rightarrow> bind (emit TempClose) (\<lambda>_. ret None)
       | Some a \<Rightarrow>
           if action a \<noteq> [] then main_oneshot w a else main_daemon w a"
  have m: "main w st = bind (check_pyudev w) (\<lambda>_. bind (parse_arguments w) ?k) st"
    by (simp add: main_def)
  have k: "bind (parse_arguments w) ?k st =
      ?k (if help_actions a then None else Some a) (snd (parse_arguments w st))"
    using f by (rule bind_Return)
  show ?thesis
  proof (cases "dependency_ok w")
    case False
    then show ?thesis
      unfolding m by (simp add: bind_def [of "check_pyudev w"] check_pyudev_eq)
  next
    case True
    then have "main w st = bind (parse_arguments w) ?k st"
      unfolding m by (simp add: bind_def [of "check_pyudev w"] check_pyudev_eq)
    with True show ?thesis
      by (simp add: k h bind_emit ret_def)
  qed
qed



lemma main_reaches:
  assumes "reaches_run_loop w a"
  shows "main w st =
     main_finish w a (daemon_run_loop (listener_start_all w) (listener_stop_all w) (time_sleeps w)
       (entering w a st))"
proof -
  from assms have p: "argparse_result w = Parsed a" and d: "dependency_ok w"
    and h: "\<not> help_actions a" and ac: "action a = []" and det: "detached w a"
    and su: "listener_setup_scanner w = None" and wa: "dbus_watch_suspend_resume w = None"
    by (simp_all add: reaches_run_loop_def)
  have pre: "fst ((if \<not> no_fork a then daemonize w else ret ()) (snd (parse_arguments w st)))
      = Return ()"
    using det by (auto simp add: detached_def daemonize_fst ret_def split: if_splits)
  have "main w st = main_daemon w a (snd (parse_arguments w st))"
    using d h ac by (simp add: main_eq [OF p])
  also have "\<dots> = main_finish w a (daemon_sequence w a (before_sequence w a st))"
    by (simp add: main_daemon_eq pre before_sequence_def)
  also have "daemon_sequence w a (before_sequence w a st) =
      daemon_run_loop (listener_start_all w) (listener_stop_all w) (time_sleeps w)
        (entering w a st)"
    by (simp add: daemon_sequence_eq su wa entering_def)
  finally show ?thesis .
qed

lemma daemonize_count:
  "x = StartupHook \<or> x = ShutdownHook \<Longrightarrow> detached w a \<Longrightarrow>
   count_list (events (snd ((if \<not> no_fork a then daemonize w else ret ()) st))) x
     = count_list (events st) x"
  by (auto simp add: detached_def daemonize_child ret_def split: if_splits)

lemma entering_count:
  assumes "x = StartupHook \<or> x = ShutdownHook" and "detached w a"
  shows "count_list (events (entering w a st)) x = count_list (events st) x"
proof -
  have "count_list (events (entering w a st)) x = count_list (events (before_sequence w a st)) x"
    using assms(1) by (auto simp add: entering_def)
  also have "\<dots> = count_list (events st) x"
    unfolding before_sequence_def
    by (simp only: udev_advisory_count [OF assms(1)] write_pid_file_count [OF assms(1)]
        daemonize_count [OF assms] parse_arguments_count [OF assms(1)])
  finally show ?thesis .
qed

lemma entering_root_level:
  "argparse_result w = Parsed a \<Longrightarrow> \<not> help_actions a \<Longrightarrow> detached w a \<Longrightarrow>
   root_level (entering w a st) = root_threshold (debug a)"
  by (auto simp add: entering_def before_sequence_def udev_advisory_root_level
      write_pid_file_root_level detached_def daemonize_child ret_def parse_arguments_root_level
      split: if_splits)

lemma close_temp_eq:
  "close_temp w a st =
     (if no_fork a then Return ()
      else (case temp_close_detached w of None \<Rightarrow> Return () | Some e \<Rightarrow> Raise e),
      st\<lparr>events := events st @ [TempClose]\<rparr>)"
  by (simp add: close_temp_def emit_def external_eq)

lemma main_finish_Return:
  "main_finish w a (Return u, st) =
     (if no_fork a then Return None
      else (case temp_close_detached w of None \<Rightarrow> Return None | Some e \<Rightarrow> Raise e),
      st\<lparr>events := events st @ [TempClose]\<rparr>)"
  by (simp add: bind_def close_temp_eq ret_def split: option.split)

lemma main_finish_fst:
  "fst (main_finish w a r) =
     (case fst r of
        Return u \<Rightarrow>
          (if no_fork a then Return None
           else (case temp_close_detached w of None \<Rightarrow> Return None | Some e \<Rightarrow> Raise e))
      | Raise e \<Rightarrow> SysExit (Code 1)
      | SysExit c \<Rightarrow> SysExit c | Forever \<Rightarrow> Forever)"
  by (cases r; cases "fst r") (simp_all add: main_finish_Return del: main_finish.simps(1))

lemma main_finish_not_Forever: "fst (main_finish w a r) \<noteq> Forever \<Longrightarrow> fst r \<noteq> Forever"
  by (cases r) auto

lemma main_finish_count:
  "x = StartupHook \<or> x = ShutdownHook \<Longrightarrow>
   count_list (events (snd (main_finish w a r))) x = count_list (events (snd r)) x"
  by (cases r; cases "fst r") (auto simp add: main_finish_Return simp del: main_finish.simps(1))

lemma main_finish_root_level: "root_level (snd (main_finish w a r)) = root_level (snd r)"
  by (cases r; cases "fst r") (simp_all add: main_finish_Return del: main_finish.simps(1))

lemma main_finish_Raise:
  "fst r = Raise e \<Longrightarrow>
   main_finish w a r =
     (SysExit (Code 1), (snd r)\<lparr>events := events (snd r) @ [Log logging_ERROR (DaemonError e)]\<rparr>)"
  by (cases r) simp

lemma daemon_sequence_fst:
  "fst (daemon_sequence w a st) \<noteq> Forever \<Longrightarrow>
   fst (daemon_sequence w a st) =
     (case listener_setup_scanner w of
        Some e \<Rightarrow> Raise e
      | None \<Rightarrow>
          (case dbus_watch_suspend_resume w of
             Some e \<Rightarrow> Raise e
           | None \<Rightarrow>
               (case snd (listener_start_all w) of
                  Some e \<Rightarrow> Raise e
                | None \<Rightarrow>
                    (case snd (listener_stop_all w) of
                       Some e \<Rightarrow> Raise e
                     | None \<Rightarrow> Return ()))))"
  by (simp add: daemon_sequence_eq drl_fst split: option.splits if_splits)

lemma daemon_sequence_status:
  "fst (daemon_sequence w a st) \<noteq> Forever \<Longrightarrow>
   exit_status (fst (main_finish w a (daemon_sequence w a st)))
     = Some (if sequence_raises w \<or> close_raises w a then 1 else 0)"
  by (simp add: main_finish_fst daemon_sequence_fst sequence_raises_def close_raises_def
      split: option.splits)

lemma entering_running:
  "detached w a \<Longrightarrow> running (entering w a st) = running st"
  by (auto simp add: entering_def before_sequence_def udev_advisory_def write_pid_file_def
      parse_arguments_def detached_def daemonize_child ret_def bind_def emit_def
      set_root_level_def logger_call_def sys_exit_def try_except_def external_eq
      split: if_splits option.split parse_outcome.split)

lemma main_count_startup:
  assumes "reaches_run_loop w a"
  shows "count_list (events (snd (main w st))) StartupHook
     = count_list (events st) StartupHook + 1"
proof -
  from assms have det: "detached w a"
    by (simp add: reaches_run_loop_def)
  show ?thesis
    by (simp add: main_reaches [OF assms] main_finish_count drl_count_startup
        entering_count [OF _ det])
qed

subsection \<open>The shutdown hook (claims C1 and C2)\<close>

text \<open>
  Claim C1, as stated: \<open>_daemon_run_loop\<close> calls the shutdown hook exactly once on every
  execution path, including the path where the startup hook raises. It fails on the code:
  \<open>startup_hook()\<close> is called before the \<open>try\<close> statement, so when it raises, the
  \<open>finally\<close> block is never entered and the shutdown hook is not called.
\<close>

theorem shutdown_skipped_counterexample:
  "daemon_run_loop ([], Some (Error ''no receiver'')) ([], None) [([Terminate], None)]
     module_import =
     (Raise (Error ''no receiver''),
      \<lparr>running = True, root_level = logging_WARNING,
       events = [TempCreate, InstallHandler SIGTERM, InstallHandler SIGINT, StartupHook]\<rparr>)"
  by (simp add: drl_startup_raises blocking_eq installed_def module_import_def ret_def)

text \<open>
  Claim C1, amended: in every execution of \<open>_daemon_run_loop\<close> the shutdown hook is called
  exactly once when the startup hook returned and the wait phase ended (by the flag or by
  an exception), and not at all when the startup hook raised; in that case the exception
  of the startup hook leaves \<open>_daemon_run_loop\<close>.
\<close>

theorem shutdown_hook_once:
  "count_list (events (snd (daemon_run_loop su sd sl st))) ShutdownHook
     = count_list (events st) ShutdownHook
       + (if snd su = None \<and> fst (daemon_run_loop su sd sl st) \<noteq> Forever then 1 else 0)
   \<and> (snd su = Some e \<longrightarrow> fst (daemon_run_loop su sd sl st) = Raise e)"
  by (simp add: drl_count_shutdown drl_fst)

text \<open>
  Claim C1, the amended statement on two runs: SIGTERM during the first sleep, with a
  startup hook that returns and with one that raises.
\<close>

theorem shutdown_hook_once_witness:
  "count_list (events (snd (daemon_run_loop ([], None) ([], None) [([Terminate], None)]
      module_import))) ShutdownHook = 1
   \<and> fst (daemon_run_loop ([], None) ([], None) [([Terminate], None)] module_import) = Return ()
   \<and> snd ([] :: delivered list, Some (Error ''no receiver'')) = Some (Error ''no receiver'')
   \<and> fst (daemon_run_loop ([], Some (Error ''no receiver'')) ([], None) [([Terminate], None)]
        module_import) = Raise (Error ''no receiver'')
   \<and> count_list (events (snd (daemon_run_loop ([], Some (Error ''no receiver'')) ([], None)
        [([Terminate], None)] module_import))) ShutdownHook = 0"
  using shutdown_hook_once [of "([], None)" "([], None)" "[([Terminate], None)]" module_import]
    shutdown_hook_once [of "([], Some (Error ''no receiver''))" "([], None)"
      "[([Terminate], None)]" module_import "Error ''no receiver''"]
  by (simp add: drl_fst blocking_eq installed_def module_import_def ret_def bind_def
      handlesig_eq)

text \<open>
  Claim C2, as stated: an exception of the shutdown hook is logged and not raised again,
  and \<open>_daemon_run_loop\<close> returns normally. It fails on the code: the \<open>finally\<close> block
  calls \<open>shutdown_hook()\<close> with no handler around it, so the exception leaves
  \<open>_daemon_run_loop\<close>, which logs nothing about it.
\<close>

theorem shutdown_raises_counterexample:
  "daemon_run_loop ([], None) ([], Some (Error ''stop failed'')) [([Terminate], None)]
     module_import =
     (Raise (Error ''stop failed''),
      \<lparr>running = False, root_level = logging_WARNING,
       events = [TempCreate, InstallHandler SIGTERM, InstallHandler SIGINT, StartupHook, Sleep,
                 Log logging_INFO ExitSIGTERM, ShutdownHook]\<rparr>)"
  by (simp add: drl_started blocking_eq installed_def module_import_def ret_def bind_def
      handlesig_eq after_wait_def isEnabledFor_def exit_reason_def SIGINT_def SIGTERM_def)

text \<open>
  Claim C2, amended: when the startup hook returned, the wait phase ended and the shutdown
  hook raises, the exception leaves \<open>_daemon_run_loop\<close>; in \<open>main\<close> the handler of the
  daemon sequence catches it, logs it at level ERROR and ends the process with status 1.
\<close>

theorem shutdown_raises_propagates:
  "(snd su = None \<and> snd sd = Some e \<and> fst (daemon_run_loop su sd sl st) \<noteq> Forever \<longrightarrow>
      fst (daemon_run_loop su sd sl st) = Raise e)
   \<and> (reaches_run_loop w a \<and> snd (listener_start_all w) = None
        \<and> snd (listener_stop_all w) = Some e \<and> fst (main w st) \<noteq> Forever \<longrightarrow>
      fst (main w st) = SysExit (Code 1)
      \<and> exit_status (fst (main w st)) = Some 1
      \<and> last (events (snd (main w st))) = Log logging_ERROR (DaemonError e))"
proof -
  have 1: "snd su = None \<and> snd sd = Some e \<and> fst (daemon_run_loop su sd sl st) \<noteq> Forever \<longrightarrow>
      fst (daemon_run_loop su sd sl st) = Raise e"
    by (cases "snd su") (auto simp add: drl_fst split: if_splits)
  have 2: "fst (main w st) = SysExit (Code 1)
      \<and> exit_status (fst (main w st)) = Some 1
      \<and> last (events (snd (main w st))) = Log logging_ERROR (DaemonError e)"
    if r: "reaches_run_loop w a" and s: "snd (listener_start_all w) = None"
      and t: "snd (listener_stop_all w) = Some e" and f: "fst (main w st) \<noteq> Forever"
  proof -
    let ?r = "daemon_run_loop (listener_start_all w) (listener_stop_all w) (time_sleeps w)
       (entering w a st)"
    have m: "main w st = main_finish w a ?r"
      using r by (rule main_reaches)
    from f have "fst ?r \<noteq> Forever"
      unfolding m by (rule main_finish_not_Forever)
    with s t have "fst ?r = Raise e"
      by (simp add: drl_fst split: if_splits)
    then show ?thesis
      unfolding m by (simp add: main_finish_Raise)
  qed
  from 1 2 show ?thesis by blast
qed


text \<open>Claim C2, the amended statement on the run of \<open>env0\<close> with a failing stop.\<close>

theorem shutdown_raises_propagates_witness:
  "reaches_run_loop (env0\<lparr>listener_stop_all := ([], Some (Error ''stop failed''))\<rparr>) args0
   \<and> fst (daemon_run_loop ([], None) ([], Some (Error ''stop failed'')) [([Terminate], None)]
        module_import) = Raise (Error ''stop failed'')
   \<and> fst (main (env0\<lparr>listener_stop_all := ([], Some (Error ''stop failed''))\<rparr>)
        module_import) = SysExit (Code 1)
   \<and> last (events (snd (main (env0\<lparr>listener_stop_all := ([], Some (Error ''stop failed''))\<rparr>)
        module_import))) = Log logging_ERROR (DaemonError (Error ''stop failed''))"
proof -
  let ?w = "env0\<lparr>listener_stop_all := ([], Some (Error ''stop failed''))\<rparr>"
  have r: "reaches_run_loop ?w args0"
    by (simp add: reaches_run_loop_def env0_def args0_def dependency_ok_def detached_def)
  have d: "detached ?w args0"
    by (simp add: env0_def args0_def detached_def)
  have run: "running (entering ?w args0 module_import)"
    by (simp add: entering_running [OF d] module_import_def)
  have m: "main ?w module_import =
      main_finish ?w args0 (daemon_run_loop (listener_start_all ?w) (listener_stop_all ?w)
        (time_sleeps ?w) (entering ?w args0 module_import))"
    using r by (rule main_reaches)
  have loop: "fst (daemon_run_loop (listener_start_all ?w) (listener_stop_all ?w)
      (time_sleeps ?w) (entering ?w args0 module_import)) = Raise (Error ''stop failed'')"
    using run
    by (simp add: drl_fst blocking_eq installed_def ret_def bind_def handlesig_eq env0_def)
  have f: "fst (main ?w module_import) \<noteq> Forever"
    by (simp only: m main_finish_fst loop outcome.case) simp
  have loop0: "fst (daemon_run_loop ([], None) ([], Some (Error ''stop failed''))
      [([Terminate], None)] module_import) \<noteq> Forever"
    by (simp add: drl_fst blocking_eq installed_def ret_def bind_def handlesig_eq
        module_import_def)
  show ?thesis
    using r f loop0
      shutdown_raises_propagates [of "([], None)" "([], Some (Error ''stop failed''))"
        "Error ''stop failed''" "[([Terminate], None)]" module_import ?w args0]
    by (simp add: env0_def)
qed

subsection \<open>The wait loop ends (claim C9)\<close>

text \<open>
  Claim C9: the wait loop never goes on while the flag is False: entered with the flag
  False it returns at once; and when the first signal arrives during a sleep, after \<open>k\<close>
  quiet sleeps, the loop ends with that sleep (\<open>k + 1\<close> sleeps in all, whatever the
  schedule holds after it) and \<open>_daemon_run_loop\<close> goes on to call the shutdown hook,
  once.
\<close>

theorem wait_loop_terminates:
  "(\<not> running st \<longrightarrow> wait_loop sl st = (Return (), st))
   \<and> (running st \<and> sigs \<noteq> [] \<longrightarrow>
        fst (wait_loop (replicate k ([], None) @ (sigs, x) # rest) st)
          = (case x of None \<Rightarrow> Return () | Some e \<Rightarrow> Raise e)
        \<and> \<not> running (snd (wait_loop (replicate k ([], None) @ (sigs, x) # rest) st))
        \<and> count_list (events (snd (wait_loop (replicate k ([], None) @ (sigs, x) # rest) st)))
            Sleep = count_list (events st) Sleep + Suc k
        \<and> fst (daemon_run_loop ([], None) sd (replicate k ([], None) @ (sigs, x) # rest) st)
            = (case snd sd of None \<Rightarrow> Return () | Some e \<Rightarrow> Raise e)
        \<and> count_list (events (snd (daemon_run_loop ([], None) sd
              (replicate k ([], None) @ (sigs, x) # rest) st))) Sleep
            = count_list (events st) Sleep + Suc k
        \<and> count_list (events (snd (daemon_run_loop ([], None) sd
              (replicate k ([], None) @ (sigs, x) # rest) st))) ShutdownHook
            = count_list (events st) ShutdownHook + 1)"
proof -
  have 1: "\<not> running st \<longrightarrow> wait_loop sl st = (Return (), st)"
    by (simp add: wait_loop_stopped)
  have 2: ?thesis if r: "running st" and s: "sigs \<noteq> []"
  proof -
    let ?sl = "replicate k ([], None) @ (sigs, x) # rest"
    let ?st2 = "snd (blocking StartupHook ([], None) (installed st))"
    have w: "\<And>s. running s \<Longrightarrow> wait_loop ?sl s =
        (case x of None \<Rightarrow> Return () | Some e \<Rightarrow> Raise e,
         snd (deliver sigs (s\<lparr>events := events s @ replicate (Suc k) Sleep\<rparr>)))"
      by (rule wait_loop_signalled [OF _ s])
    have c: "\<And>s. running s \<Longrightarrow>
        count_list (events (snd (wait_loop ?sl s))) Sleep = count_list (events s) Sleep + Suc k"
      by (simp add: w deliver_count count_list_replicate_same del: replicate.simps)
    have r2: "running ?st2"
      using r by (simp add: blocking_running installed_def)
    have nf: "fst (wait_loop ?sl ?st2) \<noteq> Forever"
      by (simp add: w [OF r2] split: option.split)
    have c2: "count_list (events ?st2) Sleep = count_list (events st) Sleep"
      by (simp add: blocking_count installed_count)
    have f: "fst (daemon_run_loop ([], None) sd ?sl st)
        = (case snd sd of None \<Rightarrow> Return () | Some e \<Rightarrow> Raise e)"
      using nf by (simp add: drl_fst)
    have "count_list (events (snd (daemon_run_loop ([], None) sd ?sl st))) ShutdownHook
        = count_list (events st) ShutdownHook + 1"
      using f by (simp add: drl_count_shutdown split: option.split)
    moreover have "count_list (events (snd (daemon_run_loop ([], None) sd ?sl st))) Sleep
        = count_list (events st) Sleep + Suc k"
      by (simp add: drl_count_sleep c [OF r2] c2 del: replicate.simps)
    moreover have "fst (wait_loop ?sl st) = (case x of None \<Rightarrow> Return () | Some e \<Rightarrow> Raise e)"
      by (simp add: w [OF r])
    moreover have "\<not> running (snd (wait_loop ?sl st))"
      using s by (simp add: w [OF r] deliver_running)
    ultimately show ?thesis
      using r s f c [OF r] by simp
  qed
  from 1 2 show ?thesis by blast
qed

text \<open>Claim C9 on a run with SIGTERM during the third sleep, and on a loop entered stopped.\<close>

theorem wait_loop_terminates_witness:
  "running module_import \<and> [Terminate] \<noteq> []
   \<and> fst (wait_loop [([], None), ([], None), ([Terminate], None), ([], None)] module_import)
       = Return ()
   \<and> count_list (events (snd (wait_loop
        [([], None), ([], None), ([Terminate], None), ([], None)] module_import))) Sleep = 3
   \<and> fst (daemon_run_loop ([], None) ([], None)
        [([], None), ([], None), ([Terminate], None), ([], None)] module_import) = Return ()
   \<and> count_list (events (snd (daemon_run_loop ([], None) ([], None)
        [([], None), ([], None), ([Terminate], None), ([], None)] module_import))) ShutdownHook
       = 1
   \<and> \<not> running (module_import\<lparr>running := False\<rparr>)
   \<and> wait_loop [([], None)] (module_import\<lparr>running := False\<rparr>)
       = (Return (), module_import\<lparr>running := False\<rparr>)"
  using wait_loop_terminates [of module_import "[]" "[Terminate]" 2 None "[([], None)]"
      "([], None)"]
    wait_loop_terminates [of "module_import\<lparr>running := False\<rparr>" "[([], None)]"]
  by (simp add: module_import_def numeral_2_eq_2)

subsection \<open>A failing startup hook (claim C10)\<close>

text \<open>
  Claim C10: an exception of the startup hook leaves \<open>_daemon_run_loop\<close>; the handler of
  the daemon sequence in \<open>main\<close> logs it at level ERROR, which the root logger lets
  through, and ends the process with status 1.
\<close>

theorem startup_failure_reported:
  "(snd su = Some e \<longrightarrow> fst (daemon_run_loop su sd sl st) = Raise e)
   \<and> (reaches_run_loop w a \<and> snd (listener_start_all w) = Some e \<longrightarrow>
        fst (main w st) = SysExit (Code 1)
        \<and> exit_status (fst (main w st)) = Some 1
        \<and> last (events (snd (main w st))) = Log logging_ERROR (DaemonError e)
        \<and> isEnabledFor logging_ERROR (snd (main w st)))"
proof -
  have 1: "snd su = Some e \<longrightarrow> fst (daemon_run_loop su sd sl st) = Raise e"
    by (simp add: drl_fst)
  have 2: "fst (main w st) = SysExit (Code 1)
        \<and> exit_status (fst (main w st)) = Some 1
        \<and> last (events (snd (main w st))) = Log logging_ERROR (DaemonError e)
        \<and> isEnabledFor logging_ERROR (snd (main w st))"
    if r: "reaches_run_loop w a" and s: "snd (listener_start_all w) = Some e"
  proof -
    let ?r = "daemon_run_loop (listener_start_all w) (listener_stop_all w) (time_sleeps w)
       (entering w a st)"
    have m: "main w st = main_finish w a ?r"
      using r by (rule main_reaches)
    have f: "fst ?r = Raise e"
      using s by (simp add: drl_fst)
    have "root_level (snd (main w st)) = root_threshold (debug a)"
      using r unfolding m
      by (simp add: main_finish_root_level drl_root_level entering_root_level
          reaches_run_loop_def)
    then have "isEnabledFor logging_ERROR (snd (main w st))"
      by (simp add: isEnabledFor_def root_threshold_def level_defs)
    with f show ?thesis
      unfolding m by (simp add: main_finish_Raise)
  qed
  from 1 2 show ?thesis by blast
qed

text \<open>Claim C10 on the run of \<open>env0\<close> with a failing start.\<close>

theorem startup_failure_reported_witness:
  "reaches_run_loop (env0\<lparr>listener_start_all := ([], Some (Error ''no receiver''))\<rparr>) args0
   \<and> fst (main (env0\<lparr>listener_start_all := ([], Some (Error ''no receiver''))\<rparr>)
        module_import) = SysExit (Code 1)
   \<and> last (events (snd (main (env0\<lparr>listener_start_all := ([], Some (Error ''no receiver''))\<rparr>)
        module_import))) = Log logging_ERROR (DaemonError (Error ''no receiver''))"
proof -
  let ?w = "env0\<lparr>listener_start_all := ([], Some (Error ''no receiver''))\<rparr>"
  have r: "reaches_run_loop ?w args0"
    by (simp add: reaches_run_loop_def env0_def args0_def dependency_ok_def detached_def)
  show ?thesis
    using r startup_failure_reported [of "([], Some (Error ''no receiver''))"
        "Error ''no receiver''" "([], None)" "[]" module_import ?w args0]
    by (simp add: env0_def)
qed



subsection \<open>The one-shot path and the action list (claims C3 and C4)\<close>

text \<open>
  Claim C3, as stated: for every argument vector that contains an action name, \<open>main\<close>
  delegates to the dispatcher and returns its result. It fails on the code for
  \<open>--help-actions show\<close>: \<open>_parse_arguments\<close> tests \<open>help_actions\<close> first, prints the
  action list and returns nothing, so \<open>main\<close> returns \<open>None\<close> and \<open>cli.run\<close> is never
  called, whatever it would have returned.
\<close>

theorem oneshot_counterexample:
  "cli_run env0 = Inr (Some 7)
   \<and> main (env0\<lparr>argparse_result := Parsed (args0\<lparr>help_actions := True, action := [''show'']\<rparr>)\<rparr>)
       module_import =
       (Return None,
        \<lparr>running = True, root_level = logging_WARNING,
         events = [TempCreate, CliPrintHelp, TempClose]\<rparr>)"
  by (simp add: main_eq [of _ "args0\<lparr>help_actions := True, action := [''show'']\<rparr>"]
      env0_def args0_def dependency_ok_def module_import_def)

text \<open>
  Claim C3, amended: for every parsed argument vector with an action, \<open>main\<close> never calls
  the detacher, never touches a PID file and never installs a signal handler; when moreover
  \<open>--help-actions\<close> is absent and the dependency check passes, \<open>main\<close> calls \<open>cli.run\<close>
  exactly once, with the action list and the device path, and returns its result as it is
  (an exception of \<open>cli.run\<close> leaves \<open>main\<close>).
\<close>

theorem oneshot_dispatch:
  "argparse_result w = Parsed a \<and> action a \<noteq> [] \<longrightarrow>
     filter daemon_only (added st (snd (main w st))) = []
     \<and> (dependency_ok w \<and> \<not> help_actions a \<longrightarrow>
          filter is_CliRun (added st (snd (main w st))) = [CliRun (action a) (hidraw_path a)]
          \<and> (cli_run w = Inr r \<longrightarrow> fst (main w st) = Return r)
          \<and> (cli_run w = Inl e \<longrightarrow> fst (main w st) = Raise e))"
proof (intro impI, elim conjE)
  assume p: "argparse_result w = Parsed a" and ac: "action a \<noteq> []"
  show "filter daemon_only (added st (snd (main w st))) = []
     \<and> (dependency_ok w \<and> \<not> help_actions a \<longrightarrow>
          filter is_CliRun (added st (snd (main w st))) = [CliRun (action a) (hidraw_path a)]
          \<and> (cli_run w = Inr r \<longrightarrow> fst (main w st) = Return r)
          \<and> (cli_run w = Inl e \<longrightarrow> fst (main w st) = Raise e))"
  proof (cases "dependency_ok w \<and> \<not> help_actions a")
    case False
    then show ?thesis
      using ac by (auto simp add: main_eq [OF p] added_def)
  next
    case True
    then have po: "snd (parse_arguments w st) =
        st\<lparr>root_level := root_threshold (debug a),
           events := events st
             @ [SetRootLevel (root_threshold (debug a)),
                AddFileHandler (file_handler_level (debug a))]
             @ (if debug a > 0 \<or> no_fork a then [AddStreamHandler (log_level (debug a))]
                else [])\<rparr>"
      using p ac by (simp add: parse_arguments_oneshot)
    from True ac show ?thesis
      by (cases "cli_run w") (simp_all add: main_eq [OF p] main_oneshot_eq po added_def)
  qed
qed

text \<open>Claim C3, the amended statement on \<open>-D /dev/hidraw2 config\<close>.\<close>

theorem oneshot_dispatch_witness:
  "argparse_result (env0\<lparr>argparse_result :=
       Parsed (args0\<lparr>hidraw_path := Some ''/dev/hidraw2'', action := [''config'']\<rparr>)\<rparr>)
     = Parsed (args0\<lparr>hidraw_path := Some ''/dev/hidraw2'', action := [''config'']\<rparr>)
   \<and> action (args0\<lparr>hidraw_path := Some ''/dev/hidraw2'', action := [''config'']\<rparr>) \<noteq> []
   \<and> fst (main (env0\<lparr>argparse_result :=
       Parsed (args0\<lparr>hidraw_path := Some ''/dev/hidraw2'', action := [''config'']\<rparr>)\<rparr>)
       module_import) = Return (Some 7)
   \<and> filter is_CliRun (added module_import (snd (main (env0\<lparr>argparse_result :=
       Parsed (args0\<lparr>hidraw_path := Some ''/dev/hidraw2'', action := [''config'']\<rparr>)\<rparr>)
       module_import))) = [CliRun [''config''] (Some ''/dev/hidraw2'')]
   \<and> filter daemon_only (added module_import (snd (main (env0\<lparr>argparse_result :=
       Parsed (args0\<lparr>hidraw_path := Some ''/dev/hidraw2'', action := [''config'']\<rparr>)\<rparr>)
       module_import))) = []"
  using oneshot_dispatch [of "env0\<lparr>argparse_result :=
       Parsed (args0\<lparr>hidraw_path := Some ''/dev/hidraw2'', action := [''config'']\<rparr>)\<rparr>"
      "args0\<lparr>hidraw_path := Some ''/dev/hidraw2'', action := [''config'']\<rparr>"
      module_import "Some 7"]
  by (simp add: env0_def args0_def dependency_ok_def)

text \<open>
  Claim C4, as stated: invoked with \<open>--help-actions\<close> the program lists the actions and
  exits with status 0, creating no file. It fails on the code on a Linux machine without
  pyudev: \<open>main\<close> checks the dependency before it looks at the arguments and exits with
  status 1, nothing listed; and the temporary log file exists since the import of the
  module.
\<close>

theorem help_actions_counterexample:
  "main (env0\<lparr>import_pyudev := False,
              argparse_result := Parsed (args0\<lparr>help_actions := True\<rparr>)\<rparr>) module_import
     = (SysExit MissingPyudev, module_import)
   \<and> exit_status (fst (main (env0\<lparr>import_pyudev := False,
              argparse_result := Parsed (args0\<lparr>help_actions := True\<rparr>)\<rparr>) module_import))
     = Some 1
   \<and> events module_import = [TempCreate]"
  by (simp add: main_eq [of _ "args0\<lparr>help_actions := True\<rparr>"]
      env0_def args0_def dependency_ok_def module_import_def)

text \<open>
  Claim C4, amended: invoked with \<open>--help-actions\<close> on a machine that passes the
  dependency check, \<open>main\<close> prints the action list, closes the temporary log file that the
  import of the module created, and returns \<open>None\<close> (exit status 0); it does nothing else:
  no fork, no PID file, no logging setup, no file of its own.
\<close>

theorem help_actions_only_prints:
  "argparse_result w = Parsed a \<and> help_actions a \<and> dependency_ok w \<longrightarrow>
     main w st = (Return None, st\<lparr>events := events st @ [CliPrintHelp, TempClose]\<rparr>)
     \<and> exit_status (fst (main w st)) = Some 0"
  by (auto simp add: main_eq)

text \<open>Claim C4, the amended statement on the machine of \<open>env0\<close>.\<close>

theorem help_actions_only_prints_witness:
  "argparse_result (env0\<lparr>argparse_result := Parsed (args0\<lparr>help_actions := True\<rparr>)\<rparr>)
     = Parsed (args0\<lparr>help_actions := True\<rparr>)
   \<and> help_actions (args0\<lparr>help_actions := True\<rparr>)
   \<and> dependency_ok (env0\<lparr>argparse_result := Parsed (args0\<lparr>help_actions := True\<rparr>)\<rparr>)
   \<and> main (env0\<lparr>argparse_result := Parsed (args0\<lparr>help_actions := True\<rparr>)\<rparr>) module_import
     = (Return None,
        \<lparr>running = True, root_level = logging_WARNING,
         events = [TempCreate, CliPrintHelp, TempClose]\<rparr>)"
  using help_actions_only_prints [of "env0\<lparr>argparse_result := Parsed (args0\<lparr>help_actions := True\<rparr>)\<rparr>"
      "args0\<lparr>help_actions := True\<rparr>" module_import]
  by (simp add: env0_def args0_def dependency_ok_def module_import_def)


subsection \<open>Exit statuses of the daemon path (claim C5)\<close>

text \<open>
  The exit status of every run of the daemon path that ends (arguments parsed, no
  \<open>--help-actions\<close>, no action): it is 1 when the dependency is missing, when a fork
  primitive that \<open>_daemonize\<close> reaches fails, when the surviving process sees an
  exception leave the daemon sequence (scanner setup, suspend/resume watch, startup hook,
  shutdown hook), and also when the final \<open>temp.close()\<close> raises after a detachment;
  otherwise it is 0.
\<close>

lemma daemon_exit_status:
  "argparse_result w = Parsed a \<and> \<not> help_actions a \<and> action a = []
     \<and> fst (main w st) \<noteq> Forever \<longrightarrow>
   exit_status (fst (main w st)) =
     Some (if \<not> dependency_ok w \<or> detach_fails w a
              \<or> (detached w a \<and> (sequence_raises w \<or> close_raises w a))
           then 1 else 0)"
proof (intro impI, elim conjE)
  assume p: "argparse_result w = Parsed a" and h: "\<not> help_actions a" and ac: "action a = []"
    and nf: "fst (main w st) \<noteq> Forever"
  let ?st1 = "snd (parse_arguments w st)"
  let ?pre = "if \<not> no_fork a then daemonize w else ret ()"
  let ?st3 = "snd (udev_advisory w (snd (write_pid_file w (pid_file a) (snd (?pre ?st1)))))"
  show "exit_status (fst (main w st)) =
     Some (if \<not> dependency_ok w \<or> detach_fails w a
              \<or> (detached w a \<and> (sequence_raises w \<or> close_raises w a))
           then 1 else 0)"
  proof (cases "dependency_ok w")
    case False
    then show ?thesis
      by (simp add: main_eq [OF p])
  next
    case True
    then have m: "main w st = main_daemon w a ?st1"
      using h ac by (simp add: main_eq [OF p])
    show ?thesis
    proof (cases "detached w a")
      case det: True
      then have pre: "fst (?pre ?st1) = Return ()"
        by (auto simp add: detached_def daemonize_fst ret_def split: if_splits)
      have df: "\<not> detach_fails w a"
        using det by (auto simp add: detached_def detach_fails_def split: if_splits)
      have md: "main w st = main_finish w a (daemon_sequence w a ?st3)"
        unfolding m by (simp add: main_daemon_eq pre)
      from nf have "fst (daemon_sequence w a ?st3) \<noteq> Forever"
        unfolding md by (rule main_finish_not_Forever)
      then show ?thesis
        unfolding md using True det df by (simp add: daemon_sequence_status)
    next
      case ndet: False
      then have nofork: "\<not> no_fork a"
        by (auto simp add: detached_def split: if_splits)
      have "exit_status (fst (main_daemon w a ?st1)) = Some (if detach_fails w a then 1 else 0)"
        using ndet nofork
        by (cases "os_fork1 w"; cases "os_fork2 w")
           (auto simp add: main_daemon_eq daemonize_fst detached_def detach_fails_def)
      with True ndet show ?thesis
        unfolding m by simp
    qed
  qed
qed

text \<open>
  Claim C5: the process exits with status 1 exactly on a missing dependency, a failed fork
  or an exception that leaves the daemon sequence, and a clean shutdown after a signal
  exits with status 0. The code breaks it in the default, detaching mode: with the
  dependency present, both forks succeeding, every step of the daemon sequence returning
  and SIGTERM ending the wait, the shutdown hook runs and then \<open>temp.close()\<close>, which is
  outside the \<open>try\<close>, raises \<open>FileNotFoundError\<close> where the library does not ignore the
  file that the first parent has deleted; nothing catches it and the status is 1. The same
  run with \<open>--no-fork\<close> returns and exits with status 0.
\<close>

theorem clean_shutdown_detached_status:
  "dependency_ok (env0\<lparr>argparse_result := Parsed (args0\<lparr>no_fork := False\<rparr>),
        temp_close_detached := Some (OSError ''FileNotFoundError'')\<rparr>)
   \<and> \<not> detach_fails (env0\<lparr>argparse_result := Parsed (args0\<lparr>no_fork := False\<rparr>),
        temp_close_detached := Some (OSError ''FileNotFoundError'')\<rparr>)
        (args0\<lparr>no_fork := False\<rparr>)
   \<and> listener_setup_scanner env0 = None \<and> dbus_watch_suspend_resume env0 = None
   \<and> listener_start_all env0 = ([], None) \<and> listener_stop_all env0 = ([], None)
   \<and> time_sleeps env0 = [([Terminate], None)]
   \<and> main (env0\<lparr>argparse_result := Parsed (args0\<lparr>no_fork := False\<rparr>),
        temp_close_detached := Some (OSError ''FileNotFoundError'')\<rparr>) module_import =
       (Raise (OSError ''FileNotFoundError''),
        \<lparr>running = False, root_level = logging_WARNING,
         events = [TempCreate, SetRootLevel logging_WARNING, AddFileHandler logging_WARNING,
           Log logging_INFO DaemonVersion,
           Fork, Chdir ''/'', Setsid, Umask 0, Fork, FlushStd,
           Dup2Devnull 0, Dup2Devnull 1, Dup2Devnull 2,
           SetupScanner, WatchSuspendResume False, DeferSaves,
           InstallHandler SIGTERM, InstallHandler SIGINT, StartupHook, Sleep,
           Log logging_INFO ExitSIGTERM, ShutdownHook, TempClose]\<rparr>)
   \<and> exit_status (fst (main (env0\<lparr>argparse_result := Parsed (args0\<lparr>no_fork := False\<rparr>),
        temp_close_detached := Some (OSError ''FileNotFoundError'')\<rparr>) module_import)) = Some 1
   \<and> exit_status (fst (main (env0\<lparr>temp_close_detached :=
        Some (OSError ''FileNotFoundError'')\<rparr>) module_import)) = Some 0"
proof -
  let ?a = "args0\<lparr>no_fork := False\<rparr>"
  let ?w = "env0\<lparr>argparse_result := Parsed ?a,
        temp_close_detached := Some (OSError ''FileNotFoundError'')\<rparr>"
  let ?v = "env0\<lparr>temp_close_detached := Some (OSError ''FileNotFoundError'')\<rparr>"
  have "dependency_ok ?w" and "argparse_result ?w = Parsed ?a"
    and "listener_setup_scanner ?w = None" and "dbus_watch_suspend_resume ?w = None"
    by (simp_all add: env0_def dependency_ok_def)
  moreover have "\<not> help_actions ?a" and "action ?a = []"
    by (simp_all add: args0_def)
  moreover have "detached ?w ?a"
    by (simp add: env0_def args0_def detached_def)
  ultimately have r: "reaches_run_loop ?w ?a"
    by (simp only: reaches_run_loop_def simp_thms)
  have e: "entering ?w ?a module_import =
      \<lparr>running = True, root_level = logging_WARNING,
       events = [TempCreate, SetRootLevel logging_WARNING, AddFileHandler logging_WARNING,
         Log logging_INFO DaemonVersion,
         Fork, Chdir ''/'', Setsid, Umask 0, Fork, FlushStd,
         Dup2Devnull 0, Dup2Devnull 1, Dup2Devnull 2,
         SetupScanner, WatchSuspendResume False, DeferSaves]\<rparr>"
    by (simp add: entering_def before_sequence_def env0_def args0_def module_import_def
        parse_arguments_def daemonize_child write_pid_file_def udev_advisory_def
        bind_def ret_def emit_def set_root_level_def logger_call_def
        root_threshold_def file_handler_level_def log_level_def level_defs)
  have l: "daemon_run_loop (listener_start_all ?w) (listener_stop_all ?w) (time_sleeps ?w)
      (entering ?w ?a module_import) =
      (Return (),
       \<lparr>running = False, root_level = logging_WARNING,
        events = [TempCreate, SetRootLevel logging_WARNING, AddFileHandler logging_WARNING,
          Log logging_INFO DaemonVersion,
          Fork, Chdir ''/'', Setsid, Umask 0, Fork, FlushStd,
          Dup2Devnull 0, Dup2Devnull 1, Dup2Devnull 2,
          SetupScanner, WatchSuspendResume False, DeferSaves,
          InstallHandler SIGTERM, InstallHandler SIGINT, StartupHook, Sleep,
          Log logging_INFO ExitSIGTERM, ShutdownHook]\<rparr>)"
    unfolding e
    by (simp add: env0_def drl_started blocking_eq installed_def ret_def bind_def handlesig_eq
        after_wait_def isEnabledFor_def exit_reason_def SIGINT_def SIGTERM_def level_defs)
  have m: "main ?w module_import =
      (Raise (OSError ''FileNotFoundError''),
        \<lparr>running = False, root_level = logging_WARNING,
         events = [TempCreate, SetRootLevel logging_WARNING, AddFileHandler logging_WARNING,
           Log logging_INFO DaemonVersion,
           Fork, Chdir ''/'', Setsid, Umask 0, Fork, FlushStd,
           Dup2Devnull 0, Dup2Devnull 1, Dup2Devnull 2,
           SetupScanner, WatchSuspendResume False, DeferSaves,
           InstallHandler SIGTERM, InstallHandler SIGINT, StartupHook, Sleep,
           Log logging_INFO ExitSIGTERM, ShutdownHook, TempClose]\<rparr>)"
    unfolding main_reaches [OF r] l
    by (simp add: main_finish_Return env0_def args0_def del: main_finish.simps(1))
  have r0: "reaches_run_loop ?v args0"
    by (simp add: reaches_run_loop_def env0_def args0_def dependency_ok_def detached_def)
  have d0: "detached ?v args0"
    by (simp add: env0_def args0_def detached_def)
  have run0: "running (entering ?v args0 module_import)"
    by (simp add: entering_running [OF d0] module_import_def)
  have l0: "fst (daemon_run_loop (listener_start_all ?v) (listener_stop_all ?v)
      (time_sleeps ?v) (entering ?v args0 module_import)) = Return ()"
    using run0
    by (simp add: drl_fst blocking_eq installed_def ret_def bind_def handlesig_eq env0_def)
  have nf0: "no_fork args0"
    by (simp add: args0_def)
  have m0: "fst (main ?v module_import) = Return None"
    unfolding main_reaches [OF r0]
    by (simp only: main_finish_fst l0 outcome.case nf0 if_True)
  show ?thesis
    unfolding m m0
    by (simp add: env0_def args0_def dependency_ok_def detach_fails_def)
qed

subsection \<open>The PID file (claim C6)\<close>

text \<open>
  Claim C6: \<open>_write_pid_file\<close> always returns normally. With no path (or the empty path)
  it does nothing at all. With a path on which \<open>open\<close> or \<open>write\<close> raises, it logs the
  failure at level ERROR and registers no cleanup; and a run of \<open>main\<close> whose later setup
  steps succeed still enters the run loop and calls the startup hook, once.
\<close>

theorem write_pid_file_nonfatal:
  "fst (write_pid_file w pf st) = Return ()
   \<and> (pf = None \<or> pf = Some [] \<longrightarrow> write_pid_file w pf st = (Return (), st))
   \<and> (pf = Some p \<and> p \<noteq> [] \<and> open_write w = Some e \<longrightarrow>
        added st (snd (write_pid_file w pf st))
          = [OpenPidFile p, Log logging_ERROR (PidWriteFailed p e)])
   \<and> (pf = Some p \<and> p \<noteq> [] \<and> open_write w = None \<and> file_write w = Some e \<longrightarrow>
        added st (snd (write_pid_file w pf st))
          = [OpenPidFile p, WritePid p (os_getpid w), Log logging_ERROR (PidWriteFailed p e)])
   \<and> (reaches_run_loop w a \<and> pid_file a = Some p \<and> p \<noteq> []
        \<and> (open_write w = Some e \<or> file_write w = Some e) \<longrightarrow>
        count_list (events (snd (main w st'))) StartupHook
          = count_list (events st') StartupHook + 1)"
proof -
  have 1: "fst (write_pid_file w pf st) = Return ()"
    by (rule write_pid_file_fst)
  have 2: "pf = None \<or> pf = Some [] \<longrightarrow> write_pid_file w pf st = (Return (), st)"
    by (auto simp add: write_pid_file_def ret_def)
  have 3: "pf = Some p \<and> p \<noteq> [] \<and> open_write w = Some e \<longrightarrow>
        added st (snd (write_pid_file w pf st))
          = [OpenPidFile p, Log logging_ERROR (PidWriteFailed p e)]"
    by (simp add: write_pid_file_def try_except_def bind_def external_eq emit_def
        logger_call_def added_def)
  have 4: "pf = Some p \<and> p \<noteq> [] \<and> open_write w = None \<and> file_write w = Some e \<longrightarrow>
        added st (snd (write_pid_file w pf st))
          = [OpenPidFile p, WritePid p (os_getpid w), Log logging_ERROR (PidWriteFailed p e)]"
    by (simp add: write_pid_file_def try_except_def bind_def external_eq emit_def
        logger_call_def added_def)
  have 5: "reaches_run_loop w a \<and> pid_file a = Some p \<and> p \<noteq> []
        \<and> (open_write w = Some e \<or> file_write w = Some e) \<longrightarrow>
        count_list (events (snd (main w st'))) StartupHook
          = count_list (events st') StartupHook + 1"
    by (auto simp add: main_count_startup)
  from 1 2 3 4 5 show ?thesis by blast
qed

text \<open>Claim C6 on \<open>--no-fork --pid-file /run/solaar.pid\<close> with the open refused.\<close>

theorem write_pid_file_nonfatal_witness:
  "reaches_run_loop
     (env0\<lparr>argparse_result := Parsed (args0\<lparr>pid_file := Some ''/run/solaar.pid''\<rparr>),
           open_write := Some (OSError ''Permission denied'')\<rparr>)
     (args0\<lparr>pid_file := Some ''/run/solaar.pid''\<rparr>)
   \<and> fst (write_pid_file
        (env0\<lparr>argparse_result := Parsed (args0\<lparr>pid_file := Some ''/run/solaar.pid''\<rparr>),
              open_write := Some (OSError ''Permission denied'')\<rparr>)
        (Some ''/run/solaar.pid'') module_import) = Return ()
   \<and> added module_import (snd (write_pid_file
        (env0\<lparr>argparse_result := Parsed (args0\<lparr>pid_file := Some ''/run/solaar.pid''\<rparr>),
              open_write := Some (OSError ''Permission denied'')\<rparr>)
        (Some ''/run/solaar.pid'') module_import))
      = [OpenPidFile ''/run/solaar.pid'',
         Log logging_ERROR (PidWriteFailed ''/run/solaar.pid'' (OSError ''Permission denied''))]
   \<and> write_pid_file
        (env0\<lparr>argparse_result := Parsed (args0\<lparr>pid_file := Some ''/run/solaar.pid''\<rparr>),
              open_write := Some (OSError ''Permission denied'')\<rparr>) None module_import
      = (Return (), module_import)
   \<and> count_list (events (snd (main
        (env0\<lparr>argparse_result := Parsed (args0\<lparr>pid_file := Some ''/run/solaar.pid''\<rparr>),
              open_write := Some (OSError ''Permission denied'')\<rparr>) module_import)))
        StartupHook = 1"
proof -
  let ?a = "args0\<lparr>pid_file := Some ''/run/solaar.pid''\<rparr>"
  let ?w = "env0\<lparr>argparse_result := Parsed ?a,
           open_write := Some (OSError ''Permission denied'')\<rparr>"
  have r: "reaches_run_loop ?w ?a"
    by (simp add: reaches_run_loop_def env0_def args0_def dependency_ok_def detached_def)
  have o: "open_write ?w = Some (OSError ''Permission denied'')"
    and pf: "pid_file ?a = Some ''/run/solaar.pid''"
    by (simp_all add: env0_def args0_def)
  have c: "count_list (events module_import) StartupHook = 0"
    by (simp add: module_import_def)
  show ?thesis
    using r o pf c
      write_pid_file_nonfatal [of ?w "Some ''/run/solaar.pid''" module_import
        "''/run/solaar.pid''" "OSError ''Permission denied''" ?a module_import]
      write_pid_file_nonfatal [of ?w None module_import
        "''/run/solaar.pid''" "OSError ''Permission denied''" ?a module_import]
    by simp
qed


end
